theory Spec2Isabelle
  imports Main "HOL-Library.Sublist"
begin

section \<open>Values of the parsed workflow document\<close>

text \<open>
  \<^verbatim>\<open>YAML.parse\<close> returns an untyped JavaScript value (\<^verbatim>\<open>any\<close>). The resolver only ever
  tests such a value for truthiness, reads named properties of it, calls \<^verbatim>\<open>.find\<close> and
  \<^verbatim>\<open>.includes\<close> on it, or hands it to a function of the \<^verbatim>\<open>path\<close> module. Numbers are
  observed through their truthiness alone, so a number is an integer or \<^verbatim>\<open>NaN\<close> here.
  A mapping is an association list; \<open>JUndefined\<close> is the value of an absent property.
\<close>

datatype jsval =
    JUndefined
  | JNull
  | JBool bool
  | JNum int
  | JNaN
  | JStr string
  | JSeq "jsval list"
  | JMap "(string \<times> jsval) list"

text \<open>The condition of \<^verbatim>\<open>if (v)\<close> and the negation of \<^verbatim>\<open>!v\<close>.\<close>

fun truthy :: "jsval \<Rightarrow> bool" where
  "truthy JUndefined = False"
| "truthy JNull = False"
| "truthy (JBool b) = b"
| "truthy (JNum n) = (n \<noteq> 0)"
| "truthy JNaN = False"
| "truthy (JStr s) = (s \<noteq> [])"
| "truthy (JSeq xs) = True"
| "truthy (JMap kvs) = True"

text \<open>
  \<^verbatim>\<open>v.k\<close> for a value \<open>v\<close> that is neither \<^verbatim>\<open>null\<close> nor \<^verbatim>\<open>undefined\<close> and for the
  property names the resolver reads (\<^verbatim>\<open>jobs\<close>, \<^verbatim>\<open>build_and_deploy_job\<close>, \<^verbatim>\<open>steps\<close>,
  \<^verbatim>\<open>uses\<close>, \<^verbatim>\<open>with\<close> and the five configuration keys): none of them is a property of a
  string, a number, a boolean or an array, so only a mapping can define them.
\<close>

fun getProp :: "jsval \<Rightarrow> string \<Rightarrow> jsval" where
  "getProp (JMap kvs) k = (case map_of kvs k of None \<Rightarrow> JUndefined | Some v \<Rightarrow> v)"
| "getProp _ k = JUndefined"

section \<open>The POSIX flavour of Node's path module\<close>

text \<open>
  The resolver calls \<^verbatim>\<open>path.sep\<close>, \<^verbatim>\<open>path.normalize\<close>, \<^verbatim>\<open>path.join\<close> and
  \<^verbatim>\<open>path.resolve\<close>. They belong to Node.js, not to this repository; this is their
  POSIX behaviour, segment by segment: empty segments and \<^verbatim>\<open>.\<close> are dropped, \<^verbatim>\<open>..\<close>
  removes the segment before it, and is kept only in front of a relative path.
\<close>

definition sep :: string where
  "sep = ''/''"

definition isAbsolute :: "string \<Rightarrow> bool" where
  "isAbsolute p = (case p of [] \<Rightarrow> False | c # cs \<Rightarrow> c = CHR ''/'')"

definition trailingSeparator :: "string \<Rightarrow> bool" where
  "trailingSeparator p = (case rev p of [] \<Rightarrow> False | c # cs \<Rightarrow> c = CHR ''/'')"

fun splitSep :: "string \<Rightarrow> string list" where
  "splitSep [] = [[]]"
| "splitSep (c # cs) =
     (if c = CHR ''/'' then [] # splitSep cs
      else (case splitSep cs of [] \<Rightarrow> [[c]] | s # ss \<Rightarrow> (c # s) # ss))"

fun joinSep :: "string list \<Rightarrow> string" where
  "joinSep [] = []"
| "joinSep [s] = s"
| "joinSep (s # t # ss) = s @ CHR ''/'' # joinSep (t # ss)"

text \<open>
  One segment of \<^verbatim>\<open>normalizeString\<close>; the segments kept so far are held last first.
\<close>

fun pushSegment :: "bool \<Rightarrow> string list \<Rightarrow> string \<Rightarrow> string list" where
  "pushSegment allowAboveRoot res seg =
     (if seg = [] \<or> seg = ''.'' then res
      else if seg = ''..'' then
        (case res of
           [] \<Rightarrow> if allowAboveRoot then [''..''] else []
         | lastSegment # below \<Rightarrow>
             if lastSegment = ''..'' then (if allowAboveRoot then ''..'' # res else res)
             else below)
      else seg # res)"

definition normalizeString :: "string \<Rightarrow> bool \<Rightarrow> string" where
  "normalizeString p allowAboveRoot =
     joinSep (rev (foldl (pushSegment allowAboveRoot) [] (splitSep p)))"

definition path_normalize :: "string \<Rightarrow> string" where
  "path_normalize p =
     (if p = [] then ''.''
      else
        let s = normalizeString p (\<not> isAbsolute p) in
        if s = [] then
          (if isAbsolute p then ''/'' else if trailingSeparator p then ''./'' else ''.'')
        else
          (if isAbsolute p then ''/'' else []) @ s @ (if trailingSeparator p then ''/'' else []))"

definition path_join :: "string list \<Rightarrow> string" where
  "path_join args =
     (let joined = filter (\<lambda>arg. arg \<noteq> []) args in
      if joined = [] then ''.'' else path_normalize (joinSep joined))"

text \<open>
  \<^verbatim>\<open>path.resolve\<close> walks its arguments from the right, the working directory last,
  and stops at the first absolute one.
\<close>

fun resolveFrom :: "string list \<Rightarrow> string \<Rightarrow> string" where
  "resolveFrom [] resolvedPath = resolvedPath"
| "resolveFrom (p # ps) resolvedPath =
     (if p = [] then resolveFrom ps resolvedPath
      else if isAbsolute p then p @ CHR ''/'' # resolvedPath
      else resolveFrom ps (p @ CHR ''/'' # resolvedPath))"

definition path_resolve :: "string \<Rightarrow> string list \<Rightarrow> string" where
  "path_resolve cwd args =
     (let resolvedPath = resolveFrom (rev (cwd # args)) [];
          s = normalizeString resolvedPath (\<not> isAbsolute resolvedPath) in
      if isAbsolute resolvedPath then CHR ''/'' # s
      else if s \<noteq> [] then s else ''.'')"

section \<open>The environment of a call\<close>

text \<open>
  What \<^verbatim>\<open>readConfigFile\<close> reads from outside: the working directory, the file system
  (\<^verbatim>\<open>fs.existsSync\<close>, \<^verbatim>\<open>fs.readdirSync\<close>, \<^verbatim>\<open>fs.readFileSync\<close>), the YAML parser and the
  runtime detector. A file system maps the absolute path of an entry to the entry.
\<close>

datatype fs_entry = File string | Directory "string list"

text \<open>
  Modelled from the spec: the enumeration \<^verbatim>\<open>RuntimeType\<close> and the function
  \<^verbatim>\<open>detectRuntime\<close> of \<^verbatim>\<open>./runtimes\<close>, which is not among the sources. The spec
  describes an opaque, pure classifier that returns the ".NET-like" classification or
  another one; the resolver compares its result with \<^verbatim>\<open>RuntimeType.dotnet\<close> only, so
  the detector is a parameter and the other classifications are one value.
\<close>

datatype RuntimeType = dotnet | otherRuntime

record env =
  cwd :: string
  entries :: "string \<Rightarrow> fs_entry option"
  YAML_parse :: "string \<Rightarrow> jsval option"
  detectRuntime :: "string \<Rightarrow> RuntimeType"

text \<open>
  What a call can throw: \<^verbatim>\<open>Error(message)\<close> of the resolver itself, a \<^verbatim>\<open>TypeError\<close>
  of the language or of the argument validation of \<^verbatim>\<open>path\<close>, an error of \<^verbatim>\<open>fs\<close>, and
  an error of the YAML parser (\<open>YAML_parse\<close> is \<open>None\<close> where the parser throws).
\<close>

datatype error = Error string | TypeError | FsError | YAMLError

definition existsSync :: "env \<Rightarrow> string \<Rightarrow> bool" where
  "existsSync e p = (entries e (path_resolve (cwd e) [p]) \<noteq> None)"

definition readdirSync :: "env \<Rightarrow> string \<Rightarrow> error + string list" where
  "readdirSync e p =
     (case entries e (path_resolve (cwd e) [p]) of
        Some (Directory names) \<Rightarrow> Inr names
      | _ \<Rightarrow> Inl FsError)"

definition readFileSync :: "env \<Rightarrow> string \<Rightarrow> error + string" where
  "readFileSync e p =
     (case entries e (path_resolve (cwd e) [p]) of
        Some (File content) \<Rightarrow> Inr content
      | _ \<Rightarrow> Inl FsError)"

section \<open>The configuration record and the log\<close>

text \<open>
  \<^verbatim>\<open>Partial<GithubActionSWAConfig>\<close>: every field may be absent (\<open>None\<close>, and
  \<open>JUndefined\<close> for a build command). The build commands of a returned configuration
  come unchecked out of the parsed document, so they are values of any kind.
\<close>

record GithubActionSWAConfig =
  appBuildCommand :: jsval
  apiBuildCommand :: jsval
  appLocation :: "string option"
  apiLocation :: "string option"
  appArtifactLocation :: "string option"

datatype log = Warn string | Info string | InfoConfig GithubActionSWAConfig

definition warningMessage :: string where
  "warningMessage = ''WARNING: SWA configuration not found.''"

section \<open>Locating the workflow file (lines 116 to 134)\<close>

definition githubActionFolder :: "env \<Rightarrow> string" where
  "githubActionFolder e = path_resolve (cwd e) [''.github/workflows/'']"

definition isWorkflowFile :: "string \<Rightarrow> bool" where
  "isWorkflowFile file = (sublist ''azure-static-web-apps'' file \<and> suffix ''.yml'' file)"

definition pop :: "'a list \<Rightarrow> 'a option" where
  "pop xs = (if xs = [] then None else Some (last xs))"

text \<open>
  \<open>Inr None\<close> is the degraded path (the warning), \<open>Inr (Some file)\<close> the resolved path
  of the chosen workflow file.
\<close>

definition findGithubActionFile :: "env \<Rightarrow> error + string option" where
  "findGithubActionFile e =
     (if \<not> existsSync e (githubActionFolder e) then Inr None
      else
        case readdirSync e (githubActionFolder e) of
          Inl err \<Rightarrow> Inl err
        | Inr files \<Rightarrow>
            (case pop (filter isWorkflowFile files) of
               None \<Rightarrow> Inr None
             | Some githubActionFile \<Rightarrow>
                 if githubActionFile = [] \<or> existsSync e githubActionFile then Inr None
                 else Inr (Some (path_resolve (cwd e) [githubActionFolder e, githubActionFile]))))"

section \<open>Validating the parsed document (lines 144 to 177)\<close>

definition inWorkflowFile :: "string \<Rightarrow> string" where
  "inWorkflowFile file =
     '' in the SWA workflow file '' @ [CHR 0x22] @ file @ [CHR 0x22] @
     ''. Make sure it's a valid SWA workflow file.''"

definition couldNotParse :: "string \<Rightarrow> string" where
  "couldNotParse file =
     ''could not parse the SWA workflow file '' @ [CHR 0x22] @ file @ [CHR 0x22] @
     ''. Make sure it's a valid YAML file.''"

definition missingProperty :: "string \<Rightarrow> string \<Rightarrow> string" where
  "missingProperty property file =
     ''missing property '' @ [CHR 0x27] @ property @ [CHR 0x27] @ inWorkflowFile file"

definition invalidProperty :: "string \<Rightarrow> string \<Rightarrow> string" where
  "invalidProperty property file =
     ''invalid property '' @ [CHR 0x27] @ property @ [CHR 0x27] @ inWorkflowFile file"

text \<open>
  The callback of \<^verbatim>\<open>steps.find\<close>: \<^verbatim>\<open>step.uses && step.uses.includes(marker)\<close>. Reading
  \<^verbatim>\<open>uses\<close> off \<^verbatim>\<open>null\<close> throws; a string has the substring test, an array the membership
  test, and any other truthy value has no callable \<^verbatim>\<open>includes\<close>.
\<close>

definition deployMarker :: string where
  "deployMarker = ''static-web-apps-deploy''"

definition isDeployStep :: "jsval \<Rightarrow> error + bool" where
  "isDeployStep step =
     (if step = JNull \<or> step = JUndefined then Inl TypeError
      else
        let uses = getProp step ''uses'' in
        if \<not> truthy uses then Inr False
        else
          (case uses of
             JStr s \<Rightarrow> Inr (sublist deployMarker s)
           | JSeq xs \<Rightarrow> Inr (JStr deployMarker \<in> set xs)
           | _ \<Rightarrow> Inl TypeError))"

text \<open>\<^verbatim>\<open>Array.prototype.find\<close>: the first element accepted, \<^verbatim>\<open>undefined\<close> when there is none.\<close>

fun findDeployStep :: "jsval list \<Rightarrow> error + jsval" where
  "findDeployStep [] = Inr JUndefined"
| "findDeployStep (step # steps) =
     (case isDeployStep step of
        Inl err \<Rightarrow> Inl err
      | Inr matches \<Rightarrow> if matches then Inr step else findDeployStep steps)"

text \<open>
  The three nested properties \<^verbatim>\<open>swaYaml.jobs\<close>, \<^verbatim>\<open>swaYaml.jobs.build_and_deploy_job\<close> and
  \<^verbatim>\<open>swaYaml.jobs.build_and_deploy_job.steps\<close>.
\<close>

definition jobsOf :: "jsval \<Rightarrow> jsval" where
  "jobsOf swaYaml = getProp swaYaml ''jobs''"

definition buildAndDeployJobOf :: "jsval \<Rightarrow> jsval" where
  "buildAndDeployJobOf swaYaml = getProp (jobsOf swaYaml) ''build_and_deploy_job''"

definition stepsOf :: "jsval \<Rightarrow> jsval" where
  "stepsOf swaYaml = getProp (buildAndDeployJobOf swaYaml) ''steps''"

text \<open>
  Lines 144 to 177. A truthy \<^verbatim>\<open>steps\<close> that is not an array has no callable \<^verbatim>\<open>find\<close>.
\<close>

definition swaBuildConfigWith :: "string \<Rightarrow> jsval \<Rightarrow> error + jsval" where
  "swaBuildConfigWith githubActionFile swaYaml =
     (if \<not> truthy swaYaml then Inl (Error (couldNotParse githubActionFile))
      else if \<not> truthy (jobsOf swaYaml) then
        Inl (Error (missingProperty ''jobs'' githubActionFile))
      else if \<not> truthy (buildAndDeployJobOf swaYaml) then
        Inl (Error (missingProperty ''jobs.build_and_deploy_job'' githubActionFile))
      else if \<not> truthy (stepsOf swaYaml) then
        Inl (Error (missingProperty ''jobs.build_and_deploy_job.steps'' githubActionFile))
      else
        (case stepsOf swaYaml of
           JSeq xs \<Rightarrow>
             (case findDeployStep xs of
                Inl err \<Rightarrow> Inl err
              | Inr swaBuildConfig \<Rightarrow>
                  if \<not> truthy swaBuildConfig then
                    Inl (Error (invalidProperty ''jobs.build_and_deploy_job.steps[]'' githubActionFile))
                  else if \<not> truthy (getProp swaBuildConfig ''with'') then
                    Inl (Error (missingProperty ''jobs.build_and_deploy_job.steps[].with'' githubActionFile))
                  else Inr (getProp swaBuildConfig ''with''))
         | _ \<Rightarrow> Inl TypeError))"

section \<open>Defaults and path resolution (lines 180 to 203)\<close>

text \<open>A destructuring default replaces \<^verbatim>\<open>undefined\<close> and nothing else.\<close>

definition orDefault :: "jsval \<Rightarrow> jsval \<Rightarrow> jsval" where
  "orDefault v d = (if v = JUndefined then d else v)"

definition defaultBuildCommand :: string where
  "defaultBuildCommand = ''npm run build --if-present''"

text \<open>The functions of \<^verbatim>\<open>path\<close> throw a \<^verbatim>\<open>TypeError\<close> on an argument that is not a string.\<close>

definition validateString :: "jsval \<Rightarrow> error + string" where
  "validateString v = (case v of JStr s \<Rightarrow> Inr s | _ \<Rightarrow> Inl TypeError)"

definition dotnetPublish :: "string list" where
  "dotnetPublish = [''bin'', ''Debug'', ''netstandard2.1'', ''publish'']"

text \<open>
  Lines 193 to 203, from the defaulted \<^verbatim>\<open>app_location\<close>, \<^verbatim>\<open>api_location\<close> and
  \<^verbatim>\<open>app_artifact_location\<close> to their resolved values, in this order.
\<close>

definition resolveLocations :: "env \<Rightarrow> jsval \<Rightarrow> jsval \<Rightarrow> jsval \<Rightarrow> error + string \<times> string \<times> string" where
  "resolveLocations e app_location api_location app_artifact_location =
     (case validateString app_location of
        Inl err \<Rightarrow> Inl err
      | Inr app \<Rightarrow>
     (case validateString (if truthy api_location then api_location else JStr sep) of
        Inl err \<Rightarrow> Inl err
      | Inr api \<Rightarrow>
     (case validateString app_artifact_location of
        Inl err \<Rightarrow> Inl err
      | Inr artifact \<Rightarrow>
          let app_location' = path_normalize (path_join [cwd e, app]);
              api_location' = path_normalize (path_join [cwd e, api]);
              artifact' = path_normalize artifact
          in
            Inr (app_location', api_location',
                 if detectRuntime e app_location' = dotnet
                 then path_join (app_location' # dotnetPublish @ [artifact'])
                 else path_join [app_location', artifact']))))"

section \<open>Overrides (lines 206 to 223)\<close>

text \<open>
  \<^verbatim>\<open>if (overrideConfig.field)\<close>: the field is defined and is not the empty string.
\<close>

definition overrideLocation :: "string \<Rightarrow> string option \<Rightarrow> string \<Rightarrow> string" where
  "overrideLocation dir field location =
     (case field of
        None \<Rightarrow> location
      | Some v \<Rightarrow> if v = [] then location else path_normalize (path_join [dir, v]))"

definition applyOverride ::
  "string \<Rightarrow> GithubActionSWAConfig option \<Rightarrow> string \<times> string \<times> string \<Rightarrow> string \<times> string \<times> string" where
  "applyOverride dir overrideConfig locations =
     (case overrideConfig of
        None \<Rightarrow> locations
      | Some ov \<Rightarrow>
          (case locations of
             (app_location, api_location, app_artifact_location) \<Rightarrow>
               (overrideLocation dir (appLocation ov) app_location,
                overrideLocation dir (apiLocation ov) api_location,
                overrideLocation dir (appArtifactLocation ov) app_artifact_location)))"

section \<open>readConfigFile\<close>

text \<open>
  The result is the log of the call and what it returns or throws; \<open>Inr None\<close> is
  \<^verbatim>\<open>undefined\<close>. \<^verbatim>\<open>readFileSync\<close> with an encoding returns a string, so the \<^verbatim>\<open>typeof\<close>
  test of line 138 never fails.
\<close>

definition configFrom :: "env \<Rightarrow> GithubActionSWAConfig option \<Rightarrow> jsval \<Rightarrow> error + GithubActionSWAConfig" where
  "configFrom e overrideConfig withBlock =
     (let app_build_command = orDefault (getProp withBlock ''app_build_command'') (JStr defaultBuildCommand);
          api_build_command = orDefault (getProp withBlock ''api_build_command'') (JStr defaultBuildCommand);
          app_location = orDefault (getProp withBlock ''app_location'') (JStr sep);
          app_artifact_location = orDefault (getProp withBlock ''app_artifact_location'') (JStr sep);
          api_location = orDefault (getProp withBlock ''api_location'') (JStr ''api'')
      in
        case resolveLocations e app_location api_location app_artifact_location of
          Inl err \<Rightarrow> Inl err
        | Inr locations \<Rightarrow>
            (case applyOverride (cwd e) overrideConfig locations of
               (app_location', api_location', app_artifact_location') \<Rightarrow>
                 Inr \<lparr> appBuildCommand = app_build_command,
                       apiBuildCommand = api_build_command,
                       appLocation = Some app_location',
                       apiLocation = Some api_location',
                       appArtifactLocation = Some app_artifact_location' \<rparr>))"

definition readConfigFile ::
  "env \<Rightarrow> GithubActionSWAConfig option \<Rightarrow> log list \<times> (error + GithubActionSWAConfig option)" where
  "readConfigFile e overrideConfig =
     (case findGithubActionFile e of
        Inl err \<Rightarrow> ([], Inl err)
      | Inr None \<Rightarrow> ([Warn warningMessage], Inr overrideConfig)
      | Inr (Some githubActionFile) \<Rightarrow>
          (case readFileSync e githubActionFile of
             Inl err \<Rightarrow> ([], Inl err)
           | Inr githubActionContent \<Rightarrow>
               (case YAML_parse e githubActionContent of
                  None \<Rightarrow> ([], Inl YAMLError)
                | Some swaYaml \<Rightarrow>
                    (case swaBuildConfigWith githubActionFile swaYaml of
                       Inl err \<Rightarrow> ([], Inl err)
                     | Inr withBlock \<Rightarrow>
                         (case configFrom e overrideConfig withBlock of
                            Inl err \<Rightarrow> ([], Inl err)
                          | Inr config \<Rightarrow>
                              ([Info (''INFO: Using SWA configuration file: '' @ githubActionFile),
                                InfoConfig config],
                               Inr (Some config)))))))"

section \<open>Predicates of the properties\<close>

text \<open>
  A segment that \<^verbatim>\<open>normalizeString\<close> keeps as it is on an absolute path: not empty, not
  \<^verbatim>\<open>.\<close>, not \<^verbatim>\<open>..\<close>, and free of separators.
\<close>

definition cleanSegment :: "string \<Rightarrow> bool" where
  "cleanSegment s = (s \<noteq> [] \<and> s \<noteq> ''.'' \<and> s \<noteq> ''..'' \<and> CHR ''/'' \<notin> set s)"

text \<open>
  A path field that is defined, absolute, and a fixed point of \<^verbatim>\<open>path.normalize\<close>.
\<close>

definition absoluteNormalized :: "string option \<Rightarrow> bool" where
  "absoluteNormalized location =
     (case location of None \<Rightarrow> False | Some p \<Rightarrow> isAbsolute p \<and> path_normalize p = p)"

text \<open>A message names a property when it quotes its path, as \<^verbatim>\<open>'jobs'\<close>.\<close>

definition namesProperty :: "string \<Rightarrow> string \<Rightarrow> bool" where
  "namesProperty property message = sublist ([CHR 0x27] @ property @ [CHR 0x27]) message"

section \<open>Example projects\<close>

text \<open>
  Workflow documents, override records and file systems of a project in \<^verbatim>\<open>/proj\<close>, at which
  the theorems below are instantiated: a project with a workflow file, one without the
  workflow folder, one whose folder holds no matching file, and one where an entry of the
  working directory has the name of the workflow file.
\<close>

definition workflowPath :: string where
  "workflowPath = ''/proj/.github/workflows/azure-static-web-apps.yml''"

definition workflowDoc :: "jsval list \<Rightarrow> jsval" where
  "workflowDoc steps =
     JMap [(''jobs'', JMap [(''build_and_deploy_job'', JMap [(''steps'', JSeq steps)])])]"

definition checkoutStep :: jsval where
  "checkoutStep = JMap [(''uses'', JStr ''actions/checkout@v2'')]"

definition deployStep :: "jsval \<Rightarrow> jsval" where
  "deployStep w =
     JMap [(''uses'', JStr ''Azure/static-web-apps-deploy@v0.0.1-preview''), (''with'', w)]"

definition bareDeployStep :: jsval where
  "bareDeployStep = JMap [(''uses'', JStr ''Azure/static-web-apps-deploy@v0.0.1-preview'')]"

definition clientServerWith :: jsval where
  "clientServerWith = JMap [(''app_location'', JStr ''client''), (''api_location'', JStr ''server'')]"

definition clientServerDoc :: jsval where
  "clientServerDoc = workflowDoc [checkoutStep, deployStep clientServerWith]"

definition fullWith :: jsval where
  "fullWith =
     JMap [(''app_build_command'', JStr ''npm run build:app''),
           (''api_build_command'', JStr ''npm run build:api''),
           (''app_location'', JStr ''app''),
           (''app_artifact_location'', JStr ''dist''),
           (''api_location'', JStr ''functions'')]"

definition noJobsDoc :: jsval where
  "noJobsDoc = JMap [(''name'', JStr ''CI'')]"

definition otherJobDoc :: jsval where
  "otherJobDoc = JMap [(''jobs'', JMap [(''test'', JMap [(''steps'', JSeq [checkoutStep])])])]"

definition noStepsDoc :: jsval where
  "noStepsDoc =
     JMap [(''jobs'', JMap [(''build_and_deploy_job'', JMap [(''runs-on'', JStr ''ubuntu-latest'')])])]"

definition stepsNotSequenceDoc :: jsval where
  "stepsNotSequenceDoc =
     JMap [(''jobs'', JMap [(''build_and_deploy_job'', JMap [(''steps'', JStr ''abc'')])])]"

definition projectEntries :: "string \<Rightarrow> fs_entry option" where
  "projectEntries p =
     (if p = ''/proj/.github/workflows''
      then Some (Directory [''ci.yml'', ''azure-static-web-apps.yml''])
      else if p = ''/proj/.github/workflows/azure-static-web-apps.yml''
      then Some (File ''jobs: ...'')
      else None)"

definition projectEnv :: "jsval \<Rightarrow> RuntimeType \<Rightarrow> env" where
  "projectEnv swaYaml runtime =
     \<lparr> cwd = ''/proj'', entries = projectEntries,
       YAML_parse = (\<lambda>content. Some swaYaml), detectRuntime = (\<lambda>p. runtime) \<rparr>"

definition bareEnv :: env where
  "bareEnv =
     \<lparr> cwd = ''/proj'', entries = (\<lambda>p. None),
       YAML_parse = (\<lambda>content. None), detectRuntime = (\<lambda>p. otherRuntime) \<rparr>"

definition otherWorkflowsEnv :: env where
  "otherWorkflowsEnv =
     \<lparr> cwd = ''/proj'',
       entries = (\<lambda>p. if p = ''/proj/.github/workflows''
                       then Some (Directory [''ci.yml'', ''azure-static-web-apps.txt'']) else None),
       YAML_parse = (\<lambda>content. None), detectRuntime = (\<lambda>p. otherRuntime) \<rparr>"

definition shadowedEnv :: env where
  "shadowedEnv =
     \<lparr> cwd = ''/proj'',
       entries = (\<lambda>p. if p = ''/proj/azure-static-web-apps.yml'' then Some (File [])
                       else projectEntries p),
       YAML_parse = (\<lambda>content. Some (workflowDoc [checkoutStep, deployStep clientServerWith])),
       detectRuntime = (\<lambda>p. otherRuntime) \<rparr>"

definition clientOverride :: GithubActionSWAConfig where
  "clientOverride =
     \<lparr> appBuildCommand = JUndefined, apiBuildCommand = JUndefined,
       appLocation = Some ''client'', apiLocation = None, appArtifactLocation = None \<rparr>"

definition buildOverride :: GithubActionSWAConfig where
  "buildOverride =
     \<lparr> appBuildCommand = JStr ''make app'', apiBuildCommand = JStr ''make api'',
       appLocation = Some ''web'', apiLocation = Some ''fn'', appArtifactLocation = Some ''out'' \<rparr>"

section \<open>Properties of the path functions\<close>

text \<open>The examples of the Node.js documentation, and the paths the resolver builds.\<close>

lemma path_documented_examples:
  "path_normalize ''/foo/bar//baz/asdf/quux/..'' = ''/foo/bar/baz/asdf''"
  "path_join [''/foo'', ''bar'', ''baz/asdf'', ''quux'', ''..''] = ''/foo/bar/baz/asdf''"
  "path_resolve ''/home/myself/node'' [''/foo/bar'', ''./baz''] = ''/foo/bar/baz''"
  "path_resolve ''/home/myself/node'' [''wwwroot'', ''static_files/gif/image.gif'']
     = ''/home/myself/node/wwwroot/static_files/gif/image.gif''"
  "path_normalize [] = ''.''"
  "path_join [] = ''.''"
  by code_simp+

lemma path_resolver_examples:
  "path_resolve ''/proj'' [''.github/workflows/''] = ''/proj/.github/workflows''"
  "path_join [''/proj'', sep] = ''/proj/''"
  "path_join [''/proj/client'', path_normalize sep] = ''/proj/client/''"
  "path_normalize (path_join [''/proj'', ''../up/./x//y/'']) = ''/up/x/y/''"
  by code_simp+

lemma splitSep_not_Nil: "splitSep p \<noteq> []"
  by (induction p) (auto split: list.splits)

lemma splitSep_no_slash: "s \<in> set (splitSep p) \<Longrightarrow> CHR ''/'' \<notin> set s"
  by (induction p arbitrary: s) (auto split: list.splits if_splits)

lemma splitSep_append_slash: "splitSep (a @ CHR ''/'' # b) = splitSep a @ splitSep b"
  by (induction a) (auto split: list.splits simp: splitSep_not_Nil)

lemma splitSep_segment: "CHR ''/'' \<notin> set s \<Longrightarrow> splitSep s = [s]"
  by (induction s) (auto split: list.splits)

lemma splitSep_joinSep:
  "xs \<noteq> [] \<Longrightarrow> \<forall>x\<in>set xs. CHR ''/'' \<notin> set x \<Longrightarrow> splitSep (joinSep xs) = xs"
  by (induction xs rule: joinSep.induct) (auto simp: splitSep_append_slash splitSep_segment)

lemma pushSegment_cases:
  "pushSegment a res seg = res \<or> pushSegment a res seg = tl res \<or>
   (pushSegment a res seg = seg # res \<and> (a \<or> (seg \<noteq> [] \<and> seg \<noteq> ''.'' \<and> seg \<noteq> ''..'')))"
  by (cases res) simp_all

lemma pushSegment_empty: "pushSegment a res [] = res"
  by simp

lemma pushSegment_keeps: "cleanSegment x \<Longrightarrow> pushSegment a res x = x # res"
  by (simp add: cleanSegment_def)

declare pushSegment.simps [simp del]

lemma pushSegment_clean:
  assumes "\<forall>s\<in>set res. cleanSegment s" and "CHR ''/'' \<notin> set seg"
  shows "\<forall>s\<in>set (pushSegment False res seg). cleanSegment s"
proof -
  have t: "\<forall>s\<in>set (tl res). cleanSegment s"
    using assms(1) by (cases res) simp_all
  consider "pushSegment False res seg = res" | "pushSegment False res seg = tl res"
    | "pushSegment False res seg = seg # res" "seg \<noteq> []" "seg \<noteq> ''.''" "seg \<noteq> ''..''"
    using pushSegment_cases [of False res seg] by blast
  then show ?thesis
  proof cases
    case 1
    then show ?thesis using assms(1) by simp
  next
    case 2
    then show ?thesis using t by simp
  next
    case 3
    have "cleanSegment seg" unfolding cleanSegment_def using 3 assms(2) by blast
    then show ?thesis using 3(1) assms(1) by simp
  qed
qed

lemma foldl_pushSegment_clean:
  "\<forall>s\<in>set res. cleanSegment s \<Longrightarrow> \<forall>x\<in>set xs. CHR ''/'' \<notin> set x \<Longrightarrow>
   \<forall>s\<in>set (foldl (pushSegment False) res xs). cleanSegment s"
proof (induction xs arbitrary: res)
  case Nil
  then show ?case by simp
next
  case (Cons x xs)
  have "\<forall>s\<in>set (pushSegment False res x). cleanSegment s"
    using Cons.prems pushSegment_clean [of res x] by simp
  then show ?case using Cons.IH Cons.prems by simp
qed

lemma foldl_pushSegment_kept:
  "\<forall>x\<in>set xs. cleanSegment x \<or> x = [] \<Longrightarrow>
   foldl (pushSegment a) res xs = rev (filter (\<lambda>x. x \<noteq> []) xs) @ res"
proof (induction xs arbitrary: res)
  case Nil
  then show ?case by simp
next
  case (Cons x xs)
  have ih: "foldl (pushSegment a) (pushSegment a res x) xs
              = rev (filter (\<lambda>x. x \<noteq> []) xs) @ pushSegment a res x"
    using Cons.IH Cons.prems by simp
  show ?case
  proof (cases "x = []")
    case True
    then show ?thesis using ih by (simp add: pushSegment_empty)
  next
    case False
    then have c: "cleanSegment x" using Cons.prems by simp
    show ?thesis using ih False by (simp add: pushSegment_keeps [OF c])
  qed
qed

lemma joinSep_Nil_iff: "\<forall>x\<in>set xs. x \<noteq> [] \<Longrightarrow> joinSep xs = [] \<longleftrightarrow> xs = []"
  by (induction xs rule: joinSep.induct) auto

lemma last_joinSep:
  "xs \<noteq> [] \<Longrightarrow> \<forall>x\<in>set xs. x \<noteq> [] \<Longrightarrow> last (joinSep xs) = last (last xs)"
  by (induction xs rule: joinSep.induct) (auto simp: joinSep_Nil_iff)

lemma trailingSeparator_last: "trailingSeparator p = (p \<noteq> [] \<and> last p = CHR ''/'')"
  by (cases p rule: rev_cases) (auto simp: trailingSeparator_def)

lemma normalizeString_clean:
  assumes "xs \<noteq> []" "\<forall>x\<in>set xs. cleanSegment x"
  shows "normalizeString (CHR ''/'' # joinSep xs) a = joinSep xs"
    and "normalizeString (CHR ''/'' # joinSep xs @ ''/'') a = joinSep xs"
proof -
  have ns: "\<forall>x\<in>set xs. CHR ''/'' \<notin> set x" using assms(2) by (simp add: cleanSegment_def)
  have sp: "splitSep (joinSep xs) = xs" using splitSep_joinSep [OF assms(1) ns] .
  have k: "\<forall>x\<in>set ([] # xs @ [[]]). cleanSegment x \<or> x = []" using assms(2) by auto
  have k': "\<forall>x\<in>set ([] # xs). cleanSegment x \<or> x = []" using assms(2) by auto
  have f: "filter (\<lambda>x. x \<noteq> []) xs = xs" using assms(2) by (auto simp: cleanSegment_def filter_id_conv)
  show "normalizeString (CHR ''/'' # joinSep xs) a = joinSep xs"
    unfolding normalizeString_def using foldl_pushSegment_kept [OF k', of a "[]"] sp f by simp
  have "splitSep (joinSep xs @ ''/'') = xs @ [[]]"
    using splitSep_append_slash [of "joinSep xs" "[]"] sp by simp
  then show "normalizeString (CHR ''/'' # joinSep xs @ ''/'') a = joinSep xs"
    unfolding normalizeString_def using foldl_pushSegment_kept [OF k, of a "[]"] f by simp
qed

lemma path_normalize_absolute:
  assumes "isAbsolute p"
  shows "isAbsolute (path_normalize p)" and "path_normalize (path_normalize p) = path_normalize p"
proof -
  obtain r where p: "p = CHR ''/'' # r" using assms by (auto simp: isAbsolute_def split: list.splits)
  define segs where "segs = rev (foldl (pushSegment False) [] (splitSep p))"
  have cl: "\<forall>x\<in>set segs. cleanSegment x"
    unfolding segs_def using foldl_pushSegment_clean [of "[]" "splitSep p"] splitSep_no_slash [of _ p]
    by auto
  have ne: "\<forall>x\<in>set segs. x \<noteq> []" using cl by (simp add: cleanSegment_def)
  have s: "normalizeString p False = joinSep segs" by (simp add: normalizeString_def segs_def)
  show "isAbsolute (path_normalize p)"
    using assms p by (simp add: path_normalize_def Let_def isAbsolute_def)
  show "path_normalize (path_normalize p) = path_normalize p"
  proof (cases "segs = []")
    case True
    then have "path_normalize p = ''/''" using assms p s by (simp add: path_normalize_def)
    moreover have "path_normalize ''/'' = ''/''" by code_simp
    ultimately show ?thesis by simp
  next
    case False
    then have j: "joinSep segs \<noteq> []" using joinSep_Nil_iff [OF ne] by simp
    have lst: "last (joinSep segs) \<noteq> CHR ''/''"
    proof -
      have "last segs \<in> set segs" using False by simp
      then have "cleanSegment (last segs)" using cl by blast
      then have "last (last segs) \<noteq> CHR ''/''"
        by (metis cleanSegment_def last_in_set)
      then show ?thesis using last_joinSep [OF False ne] by simp
    qed
    show ?thesis
    proof (cases "trailingSeparator p")
      case True
      then have q: "path_normalize p = CHR ''/'' # joinSep segs @ ''/''"
        using assms p s j by (simp add: path_normalize_def)
      have "path_normalize (CHR ''/'' # joinSep segs @ ''/'') = CHR ''/'' # joinSep segs @ ''/''"
        using normalizeString_clean(2) [OF False cl, of False] j
        by (simp add: path_normalize_def isAbsolute_def trailingSeparator_last)
      then show ?thesis using q by simp
    next
      case nt: False
      then have q: "path_normalize p = CHR ''/'' # joinSep segs"
        using assms p s j by (simp add: path_normalize_def)
      have "path_normalize (CHR ''/'' # joinSep segs) = CHR ''/'' # joinSep segs"
        using normalizeString_clean(1) [OF False cl, of False] j lst
        by (simp add: path_normalize_def isAbsolute_def trailingSeparator_last)
      then show ?thesis using q by simp
    qed
  qed
qed

lemma isAbsolute_joinSep: "isAbsolute a \<Longrightarrow> isAbsolute (joinSep (a # xs))"
  by (cases xs) (auto simp: isAbsolute_def split: list.splits)

lemma path_join_absolute:
  assumes "isAbsolute a"
  shows "isAbsolute (path_join (a # xs))"
    and "path_normalize (path_join (a # xs)) = path_join (a # xs)"
proof -
  have a: "a \<noteq> []" using assms by (auto simp: isAbsolute_def)
  have j: "path_join (a # xs) = path_normalize (joinSep (a # filter (\<lambda>arg. arg \<noteq> []) xs))"
    using a by (simp add: path_join_def)
  show "isAbsolute (path_join (a # xs))"
    using j path_normalize_absolute(1) [OF isAbsolute_joinSep [OF assms]] by simp
  show "path_normalize (path_join (a # xs)) = path_join (a # xs)"
    using j path_normalize_absolute(2) [OF isAbsolute_joinSep [OF assms]] by simp
qed

section \<open>The pipeline of readConfigFile\<close>

lemma readConfigFile_degraded:
  "findGithubActionFile e = Inr None \<Longrightarrow> readConfigFile e ov = ([Warn warningMessage], Inr ov)"
  by (simp add: readConfigFile_def)

lemma readConfigFile_invalid:
  "findGithubActionFile e = Inr (Some f) \<Longrightarrow> readFileSync e f = Inr c \<Longrightarrow>
   YAML_parse e c = Some swaYaml \<Longrightarrow> swaBuildConfigWith f swaYaml = Inl err \<Longrightarrow>
   readConfigFile e ov = ([], Inl err)"
  by (simp add: readConfigFile_def)

lemma readConfigFile_valid:
  "findGithubActionFile e = Inr (Some f) \<Longrightarrow> readFileSync e f = Inr c \<Longrightarrow>
   YAML_parse e c = Some swaYaml \<Longrightarrow> swaBuildConfigWith f swaYaml = Inr w \<Longrightarrow>
   readConfigFile e ov =
     (case configFrom e ov w of
        Inl err \<Rightarrow> ([], Inl err)
      | Inr config \<Rightarrow>
          ([Info (''INFO: Using SWA configuration file: '' @ f), InfoConfig config],
           Inr (Some config)))"
  by (simp add: readConfigFile_def)

lemma readConfigFile_returns:
  assumes "readConfigFile e ov = (logs, Inr r)" and "findGithubActionFile e = Inr (Some f)"
  obtains c swaYaml w config where
    "readFileSync e f = Inr c" "YAML_parse e c = Some swaYaml"
    "swaBuildConfigWith f swaYaml = Inr w" "configFrom e ov w = Inr config" "r = Some config"
  using assms unfolding readConfigFile_def
  by (auto split: sum.splits option.splits)

lemma configFrom_Inr:
  assumes "configFrom e ov w = Inr config"
  obtains locations where
    "resolveLocations e (orDefault (getProp w ''app_location'') (JStr sep))
       (orDefault (getProp w ''api_location'') (JStr ''api''))
       (orDefault (getProp w ''app_artifact_location'') (JStr sep)) = Inr locations"
    "appBuildCommand config = orDefault (getProp w ''app_build_command'') (JStr defaultBuildCommand)"
    "apiBuildCommand config = orDefault (getProp w ''api_build_command'') (JStr defaultBuildCommand)"
    "appLocation config = Some (fst (applyOverride (cwd e) ov locations))"
    "apiLocation config = Some (fst (snd (applyOverride (cwd e) ov locations)))"
    "appArtifactLocation config = Some (snd (snd (applyOverride (cwd e) ov locations)))"
  using assms unfolding configFrom_def Let_def
  by (auto split: sum.splits prod.splits)

lemma findGithubActionFile_no_folder:
  "\<not> existsSync e (githubActionFolder e) \<Longrightarrow> findGithubActionFile e = Inr None"
  by (simp add: findGithubActionFile_def)

lemma findGithubActionFile_no_match:
  "readdirSync e (githubActionFolder e) = Inr files \<Longrightarrow> filter isWorkflowFile files = [] \<Longrightarrow>
   findGithubActionFile e = Inr None"
  by (simp add: findGithubActionFile_def pop_def)

lemma findGithubActionFile_shadowed:
  "readdirSync e (githubActionFolder e) = Inr files \<Longrightarrow>
   pop (filter isWorkflowFile files) = Some name \<Longrightarrow> existsSync e name \<Longrightarrow>
   findGithubActionFile e = Inr None"
  by (simp add: findGithubActionFile_def)

lemma findGithubActionFile_cong:
  assumes "cwd e = cwd e'" and "entries e = entries e'"
  shows "findGithubActionFile e = findGithubActionFile e'"
proof -
  have x: "existsSync e = existsSync e'"
    using assms by (simp add: existsSync_def fun_eq_iff)
  have r: "readdirSync e = readdirSync e'"
    using assms by (simp add: readdirSync_def fun_eq_iff)
  have g: "githubActionFolder e = githubActionFolder e'"
    using assms by (simp add: githubActionFolder_def)
  show ?thesis
    unfolding findGithubActionFile_def x r g assms(1) ..
qed

lemma projectEnv_located: "findGithubActionFile (projectEnv swaYaml runtime) = Inr (Some workflowPath)"
proof -
  have "findGithubActionFile (projectEnv JNull otherRuntime) = Inr (Some workflowPath)"
    by code_simp
  moreover have "findGithubActionFile (projectEnv swaYaml runtime) = findGithubActionFile (projectEnv JNull otherRuntime)"
    by (rule findGithubActionFile_cong) (simp_all add: projectEnv_def)
  ultimately show ?thesis by simp
qed

lemma projectEnv_read: "readFileSync (projectEnv swaYaml runtime) workflowPath = Inr ''jobs: ...''"
proof -
  have "readFileSync (projectEnv JNull otherRuntime) workflowPath = Inr ''jobs: ...''"
    by code_simp
  then show ?thesis by (simp add: readFileSync_def projectEnv_def)
qed

lemma projectEnv_parsed: "YAML_parse (projectEnv swaYaml runtime) content = Some swaYaml"
  by (simp add: projectEnv_def)

lemma getProp_defined_truthy: "getProp v k \<noteq> JUndefined \<Longrightarrow> truthy v"
  by (cases v) simp_all

lemma truthy_defined: "truthy v \<Longrightarrow> v \<noteq> JUndefined"
  by (cases v) simp_all

lemma stepsOf_truthy:
  assumes "truthy (stepsOf swaYaml)"
  shows "truthy (buildAndDeployJobOf swaYaml)" and "truthy (jobsOf swaYaml)" and "truthy swaYaml"
proof -
  show b: "truthy (buildAndDeployJobOf swaYaml)"
    using assms truthy_defined getProp_defined_truthy unfolding stepsOf_def by blast
  then show j: "truthy (jobsOf swaYaml)"
    using truthy_defined getProp_defined_truthy unfolding buildAndDeployJobOf_def by blast
  then show "truthy swaYaml"
    using truthy_defined getProp_defined_truthy unfolding jobsOf_def by blast
qed

lemma findDeployStep_none:
  "\<forall>s\<in>set xs. isDeployStep s = Inr False \<Longrightarrow> findDeployStep xs = Inr JUndefined"
  by (induction xs) simp_all

lemma findDeployStep_first:
  "\<forall>s\<in>set pre. isDeployStep s = Inr False \<Longrightarrow> isDeployStep step = Inr True \<Longrightarrow>
   findDeployStep (pre @ step # post) = Inr step"
  by (induction pre) simp_all

lemma isDeployStep_truthy: "isDeployStep step = Inr True \<Longrightarrow> truthy step"
  by (cases step) (simp_all add: isDeployStep_def)

lemma swaBuildConfigWith_no_step:
  assumes "stepsOf swaYaml = JSeq xs" and "\<forall>s\<in>set xs. isDeployStep s = Inr False"
  shows "swaBuildConfigWith f swaYaml
           = Inl (Error (invalidProperty ''jobs.build_and_deploy_job.steps[]'' f))"
proof -
  have t: "truthy (stepsOf swaYaml)" using assms(1) by simp
  show ?thesis
    using assms(1) stepsOf_truthy [OF t] findDeployStep_none [OF assms(2)]
    by (simp add: swaBuildConfigWith_def)
qed

lemma swaBuildConfigWith_no_with:
  assumes "stepsOf swaYaml = JSeq (pre @ step # post)"
    and "\<forall>s\<in>set pre. isDeployStep s = Inr False" and "isDeployStep step = Inr True"
    and "\<not> truthy (getProp step ''with'')"
  shows "swaBuildConfigWith f swaYaml
           = Inl (Error (missingProperty ''jobs.build_and_deploy_job.steps[].with'' f))"
proof -
  have t: "truthy (stepsOf swaYaml)" using assms(1) by simp
  show ?thesis
    using assms(1,4) stepsOf_truthy [OF t] findDeployStep_first [OF assms(2,3)]
      isDeployStep_truthy [OF assms(3)]
    by (simp add: swaBuildConfigWith_def)
qed

lemma messages_distinct:
  "distinct [missingProperty ''jobs'' f,
             missingProperty ''jobs.build_and_deploy_job'' f,
             missingProperty ''jobs.build_and_deploy_job.steps'' f,
             invalidProperty ''jobs.build_and_deploy_job.steps[]'' f,
             missingProperty ''jobs.build_and_deploy_job.steps[].with'' f]"
  by (simp add: missingProperty_def invalidProperty_def)

lemma namesProperty_missing: "namesProperty property (missingProperty property f)"
  unfolding namesProperty_def missingProperty_def
  using sublist_appendI [of "[CHR 0x27] @ property @ [CHR 0x27]" "''missing property ''" "inWorkflowFile f"]
  by simp

lemma namesProperty_invalid: "namesProperty property (invalidProperty property f)"
  unfolding namesProperty_def invalidProperty_def
  using sublist_appendI [of "[CHR 0x27] @ property @ [CHR 0x27]" "''invalid property ''" "inWorkflowFile f"]
  by simp

lemma readConfigFile_valid_snd:
  assumes "findGithubActionFile e = Inr (Some f)" and "readFileSync e f = Inr c"
    and "YAML_parse e c = Some swaYaml" and "swaBuildConfigWith f swaYaml = Inr w"
  shows "snd (readConfigFile e ov)
           = (case configFrom e ov w of Inl err \<Rightarrow> Inl err | Inr config \<Rightarrow> Inr (Some config))"
  using readConfigFile_valid [OF assms, of ov] by (simp split: sum.splits)

lemma readConfigFile_returns_snd:
  assumes "snd (readConfigFile e ov) = Inr r" and "findGithubActionFile e = Inr (Some f)"
  obtains c swaYaml w config where
    "readFileSync e f = Inr c" "YAML_parse e c = Some swaYaml"
    "swaBuildConfigWith f swaYaml = Inr w" "configFrom e ov w = Inr config" "r = Some config"
proof -
  have "readConfigFile e ov = (fst (readConfigFile e ov), Inr r)"
    using assms(1) by (simp add: prod_eq_iff)
  then show thesis
    using readConfigFile_returns [OF _ assms(2)] that by blast
qed

lemma stepsOf_workflowDoc: "stepsOf (workflowDoc xs) = JSeq xs"
  by (simp add: stepsOf_def buildAndDeployJobOf_def jobsOf_def workflowDoc_def)

lemma isDeployStep_checkoutStep: "isDeployStep checkoutStep = Inr False"
  by code_simp

lemma isDeployStep_deployStep: "isDeployStep (deployStep w) = Inr True"
proof -
  have "sublist deployMarker ''Azure/static-web-apps-deploy@v0.0.1-preview''"
    by code_simp
  then show ?thesis
    by (simp add: isDeployStep_def deployStep_def)
qed

lemma getProp_deployStep_with: "getProp (deployStep w) ''with'' = w"
  by (simp add: deployStep_def)

lemma swaBuildConfigWith_workflowDoc:
  assumes "truthy w"
  shows "swaBuildConfigWith f (workflowDoc [checkoutStep, deployStep w]) = Inr w"
proof -
  let ?doc = "workflowDoc [checkoutStep, deployStep w]"
  have s: "stepsOf ?doc = JSeq ([checkoutStep] @ deployStep w # [])"
    by (simp add: stepsOf_workflowDoc)
  have t: "truthy (stepsOf ?doc)" by (simp add: stepsOf_workflowDoc)
  have "findDeployStep ([checkoutStep] @ deployStep w # []) = Inr (deployStep w)"
    by (rule findDeployStep_first) (simp_all add: isDeployStep_checkoutStep isDeployStep_deployStep)
  then show ?thesis
    using assms s stepsOf_truthy [OF t] isDeployStep_truthy [OF isDeployStep_deployStep, of w]
    by (simp add: swaBuildConfigWith_def getProp_deployStep_with)
qed

lemma overrideLocation_defined:
  "field = Some v \<Longrightarrow> v \<noteq> [] \<Longrightarrow>
   overrideLocation dir field location = path_normalize (path_join [dir, v])"
  by (simp add: overrideLocation_def)

lemma overrideLocation_undefined:
  "field = None \<or> field = Some [] \<Longrightarrow> overrideLocation dir field location = location"
  by (auto simp: overrideLocation_def)

lemma overrideLocation_absoluteNormalized:
  assumes "isAbsolute dir" and "absoluteNormalized (Some location)"
  shows "absoluteNormalized (Some (overrideLocation dir field location))"
  using assms path_join_absolute [OF assms(1), of "[v]" for v]
  by (auto simp: overrideLocation_def absoluteNormalized_def split: option.splits)

lemma resolveLocations_Inr:
  assumes "resolveLocations e a b c = Inr (x, y, z)"
  obtains app api artifact where
    "a = JStr app" "(if truthy b then b else JStr sep) = JStr api" "c = JStr artifact"
    "x = path_normalize (path_join [cwd e, app])"
    "y = path_normalize (path_join [cwd e, api])"
    "z = (if detectRuntime e x = dotnet
          then path_join (x # dotnetPublish @ [path_normalize artifact])
          else path_join [x, path_normalize artifact])"
  using assms unfolding resolveLocations_def validateString_def Let_def
  by (auto split: sum.splits jsval.splits if_splits)

lemma resolveLocations_absoluteNormalized:
  assumes "isAbsolute (cwd e)" and "resolveLocations e a b c = Inr (x, y, z)"
  shows "absoluteNormalized (Some x)" and "absoluteNormalized (Some y)"
    and "absoluteNormalized (Some z)"
proof -
  note j = path_join_absolute [OF assms(1)]
  obtain app api artifact where
    x: "x = path_normalize (path_join [cwd e, app])" and
    y: "y = path_normalize (path_join [cwd e, api])" and
    z: "z = (if detectRuntime e x = dotnet
          then path_join (x # dotnetPublish @ [path_normalize artifact])
          else path_join [x, path_normalize artifact])"
    using resolveLocations_Inr [OF assms(2)] by metis
  show ax: "absoluteNormalized (Some x)"
    using x j [of "[app]"] by (simp add: absoluteNormalized_def)
  show "absoluteNormalized (Some y)"
    using y j [of "[api]"] by (simp add: absoluteNormalized_def)
  have "isAbsolute x" using ax by (simp add: absoluteNormalized_def)
  then show "absoluteNormalized (Some z)"
    using z path_join_absolute [of x] by (simp add: absoluteNormalized_def)
qed

lemma configFrom_resolved:
  "(case configFrom e ov w of Inl err \<Rightarrow> Inl err | Inr config \<Rightarrow> Inr (Some config)) =
     (case resolveLocations e
             (orDefault (getProp w ''app_location'') (JStr sep))
             (orDefault (getProp w ''api_location'') (JStr ''api''))
             (orDefault (getProp w ''app_artifact_location'') (JStr sep)) of
        Inl err \<Rightarrow> Inl err
      | Inr locations \<Rightarrow>
          Inr (Some
            \<lparr> appBuildCommand = orDefault (getProp w ''app_build_command'') (JStr defaultBuildCommand),
              apiBuildCommand = orDefault (getProp w ''api_build_command'') (JStr defaultBuildCommand),
              appLocation = Some (fst (applyOverride (cwd e) ov locations)),
              apiLocation = Some (fst (snd (applyOverride (cwd e) ov locations))),
              appArtifactLocation = Some (snd (snd (applyOverride (cwd e) ov locations))) \<rparr>))"
  by (simp add: configFrom_def Let_def split: sum.splits prod.splits)

lemma applyOverride_fields:
  "fst (applyOverride dir overrideConfig (x, y, z)) =
     (case overrideConfig of None \<Rightarrow> x | Some ov \<Rightarrow> overrideLocation dir (appLocation ov) x)"
  "fst (snd (applyOverride dir overrideConfig (x, y, z))) =
     (case overrideConfig of None \<Rightarrow> y | Some ov \<Rightarrow> overrideLocation dir (apiLocation ov) y)"
  "snd (snd (applyOverride dir overrideConfig (x, y, z))) =
     (case overrideConfig of None \<Rightarrow> z | Some ov \<Rightarrow> overrideLocation dir (appArtifactLocation ov) z)"
  by (simp_all add: applyOverride_def split: option.splits)

lemma readConfigFile_config:
  assumes "findGithubActionFile e = Inr (Some f)" and "readFileSync e f = Inr content"
    and "YAML_parse e content = Some swaYaml" and "swaBuildConfigWith f swaYaml = Inr w"
    and "snd (readConfigFile e overrideConfig) = Inr (Some config)"
  shows "configFrom e overrideConfig w = Inr config"
  using assms(5) unfolding readConfigFile_valid_snd [OF assms(1-4)]
  by (simp split: sum.splits)

section \<open>The claims\<close>

text \<open>
  Claim C3. If the folder \<^verbatim>\<open>.github/workflows\<close> does not exist, or none of the files in
  it has a name that contains \<^verbatim>\<open>azure-static-web-apps\<close> and ends in \<^verbatim>\<open>.yml\<close>, then
  \<^verbatim>\<open>readConfigFile\<close> does not throw: it logs the warning, and nothing else, and returns the
  override record it was given, unchanged (\<^verbatim>\<open>undefined\<close> when it was given none).
\<close>

theorem no_descriptor_degrades:
  assumes "\<not> existsSync e (githubActionFolder e) \<or>
           (readdirSync e (githubActionFolder e) = Inr files \<and> filter isWorkflowFile files = [])"
  shows "readConfigFile e overrideConfig = ([Warn warningMessage], Inr overrideConfig)"
proof -
  have "findGithubActionFile e = Inr None"
    using assms findGithubActionFile_no_folder findGithubActionFile_no_match by blast
  then show ?thesis by (rule readConfigFile_degraded)
qed

theorem no_descriptor_degrades_witness:
  "readConfigFile bareEnv None = ([Warn ''WARNING: SWA configuration not found.''], Inr None) \<and>
   readConfigFile otherWorkflowsEnv (Some clientOverride)
     = ([Warn ''WARNING: SWA configuration not found.''], Inr (Some clientOverride))"
proof -
  have a: "\<not> existsSync bareEnv (githubActionFolder bareEnv)"
    by code_simp
  have b: "readdirSync otherWorkflowsEnv (githubActionFolder otherWorkflowsEnv)
             = Inr [''ci.yml'', ''azure-static-web-apps.txt'']
           \<and> filter isWorkflowFile [''ci.yml'', ''azure-static-web-apps.txt''] = []"
    by code_simp
  show ?thesis
    using no_descriptor_degrades [of bareEnv _ None, OF disjI1, OF a]
      no_descriptor_degrades [of otherWorkflowsEnv _ "Some clientOverride", OF disjI2, OF b]
    by (simp add: warningMessage_def)
qed

text \<open>
  Claim C9. A workflow file can be found in \<^verbatim>\<open>.github/workflows\<close> and still be ignored:
  whenever the file system has an entry at the bare name of the chosen file, resolved
  against the working directory, the test \<^verbatim>\<open>fs.existsSync(githubActionFile)\<close> of line 129
  succeeds, and \<^verbatim>\<open>readConfigFile\<close> logs the warning and returns the override record (or
  \<^verbatim>\<open>undefined\<close>) without reading the file.
\<close>

theorem shadowed_descriptor_degrades:
  assumes "readdirSync e (githubActionFolder e) = Inr files"
    and "pop (filter isWorkflowFile files) = Some name"
    and "entries e (path_resolve (cwd e) [name]) \<noteq> None"
  shows "existsSync e name \<and>
         readConfigFile e overrideConfig = ([Warn warningMessage], Inr overrideConfig)"
proof -
  have x: "existsSync e name" using assms(3) by (simp add: existsSync_def)
  have "findGithubActionFile e = Inr None"
    using findGithubActionFile_shadowed [OF assms(1) assms(2) x] .
  then have "readConfigFile e overrideConfig = ([Warn warningMessage], Inr overrideConfig)"
    by (rule readConfigFile_degraded)
  then show ?thesis using x by simp
qed

theorem shadowed_descriptor_degrades_witness:
  "readdirSync shadowedEnv (githubActionFolder shadowedEnv) = Inr [''ci.yml'', ''azure-static-web-apps.yml''] \<and>
   pop (filter isWorkflowFile [''ci.yml'', ''azure-static-web-apps.yml'']) = Some ''azure-static-web-apps.yml'' \<and>
   entries shadowedEnv ''/proj/azure-static-web-apps.yml'' = Some (File []) \<and>
   readConfigFile shadowedEnv (Some clientOverride)
     = ([Warn ''WARNING: SWA configuration not found.''], Inr (Some clientOverride))"
proof -
  have a: "readdirSync shadowedEnv (githubActionFolder shadowedEnv) = Inr [''ci.yml'', ''azure-static-web-apps.yml'']"
    by code_simp
  have b: "pop (filter isWorkflowFile [''ci.yml'', ''azure-static-web-apps.yml'']) = Some ''azure-static-web-apps.yml''"
    by code_simp
  have p: "path_resolve (cwd shadowedEnv) [''azure-static-web-apps.yml''] = ''/proj/azure-static-web-apps.yml''"
    by code_simp
  have c: "entries shadowedEnv ''/proj/azure-static-web-apps.yml'' = Some (File [])"
    by code_simp
  have d: "entries shadowedEnv (path_resolve (cwd shadowedEnv) [''azure-static-web-apps.yml'']) \<noteq> None"
    using p c by simp
  show ?thesis
    using a b c shadowed_descriptor_degrades [OF a b d, of "Some clientOverride"]
    by (simp add: warningMessage_def)
qed

text \<open>
  Claim C6, as stated, fails. The checks test truthiness only, and the document is handled
  as an untyped value: with \<^verbatim>\<open>steps: abc\<close> the checks (1) to (3) pass and check (4) has
  no step to accept, yet the call throws a \<^verbatim>\<open>TypeError\<close> (\<^verbatim>\<open>steps.find\<close> is not a function)
  whose message names no structural path. A \<^verbatim>\<open>null\<close> step and a step with \<^verbatim>\<open>uses: 5\<close> end
  the same way.
\<close>

theorem validation_order_counterexample:
  "truthy stepsNotSequenceDoc \<and> truthy (jobsOf stepsNotSequenceDoc) \<and>
   truthy (buildAndDeployJobOf stepsNotSequenceDoc) \<and>
   stepsOf stepsNotSequenceDoc = JStr ''abc'' \<and>
   readConfigFile (projectEnv stepsNotSequenceDoc otherRuntime) None = ([], Inl TypeError) \<and>
   readConfigFile (projectEnv (workflowDoc [JNull]) otherRuntime) None = ([], Inl TypeError) \<and>
   readConfigFile (projectEnv (workflowDoc [JMap [(''uses'', JNum 5)]]) otherRuntime) None
     = ([], Inl TypeError)"
  by code_simp

text \<open>
  Claim C6, amended. Once the document has parsed to a truthy value, it is validated in
  this order: (1) \<^verbatim>\<open>jobs\<close>, (2) \<^verbatim>\<open>jobs.build_and_deploy_job\<close>, (3) its \<^verbatim>\<open>steps\<close>, (4) a step
  accepted by the deploy-marker test, (5) the \<^verbatim>\<open>with\<close> block of that step. Where
  \<^verbatim>\<open>steps\<close> is falsy, or is a sequence on whose steps, up to the first one accepted, the
  deploy-marker test evaluates to true or false, the first check that fails decides the
  outcome, whatever the later ones would find: the call throws, with nothing logged and
  nothing returned, an \<^verbatim>\<open>Error\<close> whose message quotes the path of that check; the five
  messages are pairwise distinct.
\<close>

theorem validation_order:
  assumes "findGithubActionFile e = Inr (Some f)" and "readFileSync e f = Inr content"
    and "YAML_parse e content = Some swaYaml" and "truthy swaYaml"
  shows
    "(\<not> truthy (jobsOf swaYaml) \<longrightarrow>
        readConfigFile e overrideConfig = ([], Inl (Error (missingProperty ''jobs'' f)))) \<and>
     (truthy (jobsOf swaYaml) \<and> \<not> truthy (buildAndDeployJobOf swaYaml) \<longrightarrow>
        readConfigFile e overrideConfig
          = ([], Inl (Error (missingProperty ''jobs.build_and_deploy_job'' f)))) \<and>
     (truthy (jobsOf swaYaml) \<and> truthy (buildAndDeployJobOf swaYaml) \<and>
      \<not> truthy (stepsOf swaYaml) \<longrightarrow>
        readConfigFile e overrideConfig
          = ([], Inl (Error (missingProperty ''jobs.build_and_deploy_job.steps'' f)))) \<and>
     (stepsOf swaYaml = JSeq xs \<and> (\<forall>s\<in>set xs. isDeployStep s = Inr False) \<longrightarrow>
        readConfigFile e overrideConfig
          = ([], Inl (Error (invalidProperty ''jobs.build_and_deploy_job.steps[]'' f)))) \<and>
     (stepsOf swaYaml = JSeq (pre @ step # post) \<and> (\<forall>s\<in>set pre. isDeployStep s = Inr False) \<and>
      isDeployStep step = Inr True \<and> \<not> truthy (getProp step ''with'') \<longrightarrow>
        readConfigFile e overrideConfig
          = ([], Inl (Error (missingProperty ''jobs.build_and_deploy_job.steps[].with'' f)))) \<and>
     distinct [missingProperty ''jobs'' f,
               missingProperty ''jobs.build_and_deploy_job'' f,
               missingProperty ''jobs.build_and_deploy_job.steps'' f,
               invalidProperty ''jobs.build_and_deploy_job.steps[]'' f,
               missingProperty ''jobs.build_and_deploy_job.steps[].with'' f] \<and>
     namesProperty ''jobs'' (missingProperty ''jobs'' f) \<and>
     namesProperty ''jobs.build_and_deploy_job'' (missingProperty ''jobs.build_and_deploy_job'' f) \<and>
     namesProperty ''jobs.build_and_deploy_job.steps''
       (missingProperty ''jobs.build_and_deploy_job.steps'' f) \<and>
     namesProperty ''jobs.build_and_deploy_job.steps[]''
       (invalidProperty ''jobs.build_and_deploy_job.steps[]'' f) \<and>
     namesProperty ''jobs.build_and_deploy_job.steps[].with''
       (missingProperty ''jobs.build_and_deploy_job.steps[].with'' f)"
proof -
  note fails = readConfigFile_invalid [OF assms(1) assms(2) assms(3)]
  have 1: "\<not> truthy (jobsOf swaYaml) \<longrightarrow>
        readConfigFile e overrideConfig = ([], Inl (Error (missingProperty ''jobs'' f)))"
    using assms(4) by (auto intro!: fails simp: swaBuildConfigWith_def)
  have 2: "truthy (jobsOf swaYaml) \<and> \<not> truthy (buildAndDeployJobOf swaYaml) \<longrightarrow>
        readConfigFile e overrideConfig
          = ([], Inl (Error (missingProperty ''jobs.build_and_deploy_job'' f)))"
    using assms(4) by (auto intro!: fails simp: swaBuildConfigWith_def)
  have 3: "truthy (jobsOf swaYaml) \<and> truthy (buildAndDeployJobOf swaYaml) \<and>
      \<not> truthy (stepsOf swaYaml) \<longrightarrow>
        readConfigFile e overrideConfig
          = ([], Inl (Error (missingProperty ''jobs.build_and_deploy_job.steps'' f)))"
    using assms(4) by (auto intro!: fails simp: swaBuildConfigWith_def)
  have 4: "stepsOf swaYaml = JSeq xs \<and> (\<forall>s\<in>set xs. isDeployStep s = Inr False) \<longrightarrow>
        readConfigFile e overrideConfig
          = ([], Inl (Error (invalidProperty ''jobs.build_and_deploy_job.steps[]'' f)))"
    using swaBuildConfigWith_no_step [of swaYaml xs f] by (auto intro!: fails)
  have 5: "stepsOf swaYaml = JSeq (pre @ step # post) \<and> (\<forall>s\<in>set pre. isDeployStep s = Inr False) \<and>
      isDeployStep step = Inr True \<and> \<not> truthy (getProp step ''with'') \<longrightarrow>
        readConfigFile e overrideConfig
          = ([], Inl (Error (missingProperty ''jobs.build_and_deploy_job.steps[].with'' f)))"
    using swaBuildConfigWith_no_with [of swaYaml pre step post f] by (auto intro!: fails)
  show ?thesis
    by (intro conjI 1 2 3 4 5 messages_distinct namesProperty_missing namesProperty_invalid)
qed

theorem validation_order_witness:
  "readConfigFile (projectEnv noJobsDoc otherRuntime) None
     = ([], Inl (Error (missingProperty ''jobs'' workflowPath))) \<and>
   readConfigFile (projectEnv otherJobDoc otherRuntime) None
     = ([], Inl (Error (missingProperty ''jobs.build_and_deploy_job'' workflowPath))) \<and>
   readConfigFile (projectEnv noStepsDoc otherRuntime) None
     = ([], Inl (Error (missingProperty ''jobs.build_and_deploy_job.steps'' workflowPath))) \<and>
   readConfigFile (projectEnv (workflowDoc [checkoutStep]) otherRuntime) None
     = ([], Inl (Error (invalidProperty ''jobs.build_and_deploy_job.steps[]'' workflowPath))) \<and>
   readConfigFile (projectEnv (workflowDoc [checkoutStep, bareDeployStep]) otherRuntime) None
     = ([], Inl (Error (missingProperty ''jobs.build_and_deploy_job.steps[].with'' workflowPath)))"
proof -
  note at = validation_order [OF projectEnv_located projectEnv_read projectEnv_parsed]
  have t1: "truthy noJobsDoc" by code_simp
  have h1: "\<not> truthy (jobsOf noJobsDoc)" by code_simp
  have t2: "truthy otherJobDoc" by code_simp
  have h2: "truthy (jobsOf otherJobDoc) \<and> \<not> truthy (buildAndDeployJobOf otherJobDoc)"
    by code_simp
  have t3: "truthy noStepsDoc" by code_simp
  have h3: "truthy (jobsOf noStepsDoc) \<and> truthy (buildAndDeployJobOf noStepsDoc)
           \<and> \<not> truthy (stepsOf noStepsDoc)"
    by code_simp
  have t4: "truthy (workflowDoc [checkoutStep])" by code_simp
  have h4: "stepsOf (workflowDoc [checkoutStep]) = JSeq [checkoutStep]
           \<and> (\<forall>s\<in>set [checkoutStep]. isDeployStep s = Inr False)"
    by code_simp
  have t5: "truthy (workflowDoc [checkoutStep, bareDeployStep])" by code_simp
  have h5: "stepsOf (workflowDoc [checkoutStep, bareDeployStep]) = JSeq ([checkoutStep] @ bareDeployStep # [])
           \<and> (\<forall>s\<in>set [checkoutStep]. isDeployStep s = Inr False)
           \<and> isDeployStep bareDeployStep = Inr True \<and> \<not> truthy (getProp bareDeployStep ''with'')"
    by code_simp
  note c2 = conjunct2
  show ?thesis
    by (intro conjI
        at [OF t1, THEN conjunct1, rule_format, OF h1]
        at [OF t2, THEN c2, THEN conjunct1, rule_format, OF h2]
        at [OF t3, THEN c2, THEN c2, THEN conjunct1, rule_format, OF h3]
        at [OF t4, THEN c2, THEN c2, THEN c2, THEN conjunct1, rule_format, OF h4]
        at [OF t5, THEN c2, THEN c2, THEN c2, THEN c2, THEN conjunct1, rule_format, OF h5])
qed

text \<open>
  Claim C7, as stated, fails: with a \<^verbatim>\<open>steps\<close> sequence that holds a checkout step only,
  the message of the error is not \<^verbatim>\<open>no matching deploy step\<close>; it names \<^verbatim>\<open>steps[]\<close>.
\<close>

theorem no_deploy_step_counterexample:
  "readConfigFile (projectEnv (workflowDoc [checkoutStep]) otherRuntime) None
     = ([], Inl (Error (''invalid property 'jobs.build_and_deploy_job.steps[]' in the SWA workflow file ''
                        @ [CHR 0x22] @ ''/proj/.github/workflows/azure-static-web-apps.yml'' @ [CHR 0x22]
                        @ ''. Make sure it's a valid SWA workflow file.''))) \<and>
   snd (readConfigFile (projectEnv (workflowDoc [checkoutStep]) otherRuntime) None)
     \<noteq> Inl (Error ''no matching deploy step'')"
  by code_simp

text \<open>
  Claim C7, amended. For every parsed document whose \<^verbatim>\<open>steps\<close> is a sequence on which the
  deploy-marker test is false for every step, resolution fails with an \<^verbatim>\<open>Error\<close> whose
  message is \<^verbatim>\<open>invalid property 'jobs.build_and_deploy_job.steps[]' in the SWA workflow
  file "FILE". Make sure it's a valid SWA workflow file.\<close>, \<^verbatim>\<open>FILE\<close> being the resolved path of
  the workflow file.
\<close>

theorem no_deploy_step_message:
  assumes "findGithubActionFile e = Inr (Some f)" and "readFileSync e f = Inr content"
    and "YAML_parse e content = Some swaYaml"
    and "stepsOf swaYaml = JSeq xs" and "\<forall>step\<in>set xs. isDeployStep step = Inr False"
  shows "readConfigFile e overrideConfig
           = ([], Inl (Error (''invalid property 'jobs.build_and_deploy_job.steps[]' in the SWA workflow file ''
                              @ [CHR 0x22] @ f @ [CHR 0x22]
                              @ ''. Make sure it's a valid SWA workflow file.'')))"
proof -
  have "swaBuildConfigWith f swaYaml
          = Inl (Error (invalidProperty ''jobs.build_and_deploy_job.steps[]'' f))"
    using assms(4,5) by (rule swaBuildConfigWith_no_step)
  then have "readConfigFile e overrideConfig
          = ([], Inl (Error (invalidProperty ''jobs.build_and_deploy_job.steps[]'' f)))"
    by (rule readConfigFile_invalid [OF assms(1) assms(2) assms(3)])
  then show ?thesis by (simp add: invalidProperty_def inWorkflowFile_def)
qed

theorem no_deploy_step_message_witness:
  "readConfigFile (projectEnv (workflowDoc [checkoutStep, JMap [(''run'', JStr ''npm test'')]]) dotnet)
       (Some clientOverride)
     = ([], Inl (Error (''invalid property 'jobs.build_and_deploy_job.steps[]' in the SWA workflow file ''
                        @ [CHR 0x22] @ workflowPath @ [CHR 0x22]
                        @ ''. Make sure it's a valid SWA workflow file.'')))"
proof -
  have s: "stepsOf (workflowDoc [checkoutStep, JMap [(''run'', JStr ''npm test'')]])
             = JSeq [checkoutStep, JMap [(''run'', JStr ''npm test'')]]"
    by code_simp
  have n: "\<forall>step\<in>set [checkoutStep, JMap [(''run'', JStr ''npm test'')]]. isDeployStep step = Inr False"
    by code_simp
  show ?thesis
    using no_deploy_step_message [OF projectEnv_located projectEnv_read projectEnv_parsed s n] .
qed

text \<open>
  Claim C1, as stated, fails. In the project below the workflow file is found, its
  deploy step has the \<^verbatim>\<open>with\<close> block \<^verbatim>\<open>{ app_location: "client", api_location: "server" }\<close>,
  the working directory is \<^verbatim>\<open>/proj\<close> and the runtime is not .NET; the record returned is
  not the one of the claim, whose \<^verbatim>\<open>appArtifactLocation\<close> is \<^verbatim>\<open>/proj/client\<close>.
\<close>

theorem client_server_scenario_counterexample:
  "snd (readConfigFile (projectEnv clientServerDoc otherRuntime) None)
     = Inr (Some \<lparr> appBuildCommand = JStr ''npm run build --if-present'',
                    apiBuildCommand = JStr ''npm run build --if-present'',
                    appLocation = Some ''/proj/client'',
                    apiLocation = Some ''/proj/server'',
                    appArtifactLocation = Some ''/proj/client/'' \<rparr>) \<and>
   snd (readConfigFile (projectEnv clientServerDoc otherRuntime) None)
     \<noteq> Inr (Some \<lparr> appBuildCommand = JStr ''npm run build --if-present'',
                    apiBuildCommand = JStr ''npm run build --if-present'',
                    appLocation = Some ''/proj/client'',
                    apiLocation = Some ''/proj/server'',
                    appArtifactLocation = Some ''/proj/client'' \<rparr>)"
  by code_simp

text \<open>
  Claim C1, amended. Whenever the workflow file is chosen and read (so no entry of its
  bare name shadows it in the working directory), its document passes validation with a
  \<^verbatim>\<open>with\<close> block that is exactly \<^verbatim>\<open>{ app_location: "client", api_location: "server" }\<close>, the
  working directory is \<^verbatim>\<open>/proj\<close> and the detector does not classify \<^verbatim>\<open>/proj/client\<close> as
  .NET, \<^verbatim>\<open>readConfigFile\<close> without overrides returns the record of the claim except that
  \<^verbatim>\<open>appArtifactLocation\<close> is \<^verbatim>\<open>/proj/client/\<close>: joining the default artifact location, the
  separator, leaves a trailing separator.
\<close>

theorem client_server_scenario:
  assumes "cwd e = ''/proj''"
    and "findGithubActionFile e = Inr (Some f)" and "readFileSync e f = Inr content"
    and "YAML_parse e content = Some swaYaml" and "swaBuildConfigWith f swaYaml = Inr w"
    and "getProp w ''app_location'' = JStr ''client''"
    and "getProp w ''api_location'' = JStr ''server''"
    and "getProp w ''app_build_command'' = JUndefined"
    and "getProp w ''api_build_command'' = JUndefined"
    and "getProp w ''app_artifact_location'' = JUndefined"
    and "detectRuntime e ''/proj/client'' \<noteq> dotnet"
  shows "snd (readConfigFile e None)
           = Inr (Some \<lparr> appBuildCommand = JStr ''npm run build --if-present'',
                          apiBuildCommand = JStr ''npm run build --if-present'',
                          appLocation = Some ''/proj/client'',
                          apiLocation = Some ''/proj/server'',
                          appArtifactLocation = Some ''/proj/client/'' \<rparr>)"
proof -
  have a: "path_normalize (path_join [''/proj'', ''client'']) = ''/proj/client''"
    by code_simp
  have b: "path_normalize (path_join [''/proj'', ''server'']) = ''/proj/server''"
    by code_simp
  have c: "path_join [''/proj/client'', path_normalize sep] = ''/proj/client/''"
    by code_simp
  have r: "resolveLocations e (JStr ''client'') (JStr ''server'') (JStr sep)
             = Inr (''/proj/client'', ''/proj/server'', ''/proj/client/'')"
    using assms(1,11) a b c by (simp add: resolveLocations_def validateString_def)
  have "configFrom e None w
          = Inr \<lparr> appBuildCommand = JStr defaultBuildCommand,
                  apiBuildCommand = JStr defaultBuildCommand,
                  appLocation = Some ''/proj/client'',
                  apiLocation = Some ''/proj/server'',
                  appArtifactLocation = Some ''/proj/client/'' \<rparr>"
    using assms(6-10) r by (simp add: configFrom_def orDefault_def applyOverride_def)
  then show ?thesis
    using readConfigFile_valid_snd [OF assms(2-5), of None]
    by (simp add: defaultBuildCommand_def)
qed

theorem client_server_scenario_witness:
  "snd (readConfigFile (projectEnv clientServerDoc otherRuntime) None)
     = Inr (Some \<lparr> appBuildCommand = JStr ''npm run build --if-present'',
                    apiBuildCommand = JStr ''npm run build --if-present'',
                    appLocation = Some ''/proj/client'',
                    apiLocation = Some ''/proj/server'',
                    appArtifactLocation = Some ''/proj/client/'' \<rparr>)"
proof -
  have t: "truthy clientServerWith" by code_simp
  have v: "swaBuildConfigWith workflowPath clientServerDoc = Inr clientServerWith"
    unfolding clientServerDoc_def using t by (rule swaBuildConfigWith_workflowDoc)
  have d: "cwd (projectEnv clientServerDoc otherRuntime) = ''/proj''"
    by (simp add: projectEnv_def)
  have g: "getProp clientServerWith ''app_location'' = JStr ''client''"
    "getProp clientServerWith ''api_location'' = JStr ''server''"
    "getProp clientServerWith ''app_build_command'' = JUndefined"
    "getProp clientServerWith ''api_build_command'' = JUndefined"
    "getProp clientServerWith ''app_artifact_location'' = JUndefined"
    by code_simp+
  have n: "detectRuntime (projectEnv clientServerDoc otherRuntime) ''/proj/client'' \<noteq> dotnet"
    by (simp add: projectEnv_def)
  show ?thesis
    using client_server_scenario [OF d projectEnv_located projectEnv_read projectEnv_parsed v g n] .
qed

text \<open>
  Claim C2, as stated, fails where there is no workflow folder: the override record that
  defines \<^verbatim>\<open>appLocation\<close> as \<^verbatim>\<open>client\<close> is returned as it is, and its \<^verbatim>\<open>appLocation\<close> is not
  \<^verbatim>\<open>/proj/client\<close>.
\<close>

theorem override_replaces_counterexample:
  "snd (readConfigFile bareEnv (Some clientOverride)) = Inr (Some clientOverride) \<and>
   appLocation clientOverride = Some ''client'' \<and>
   path_normalize (path_join [cwd bareEnv, ''client'']) = ''/proj/client'' \<and>
   appLocation clientOverride \<noteq> Some (path_normalize (path_join [cwd bareEnv, ''client'']))"
  by code_simp

text \<open>
  Claim C2, amended. Whenever a workflow file is chosen (the call does not take the
  degraded path) and \<^verbatim>\<open>readConfigFile\<close> returns a configuration, each of \<^verbatim>\<open>appLocation\<close>,
  \<^verbatim>\<open>apiLocation\<close> and \<^verbatim>\<open>appArtifactLocation\<close> that the override record defines as a
  non-empty string \<open>v\<close> is \<^verbatim>\<open>normalize(join(cwd, v))\<close> in the returned configuration,
  whatever the descriptor says.
\<close>

theorem override_replaces:
  assumes "findGithubActionFile e = Inr (Some f)"
    and "snd (readConfigFile e (Some ov)) = Inr (Some config)"
  shows
    "(appLocation ov = Some v \<and> v \<noteq> [] \<longrightarrow>
        appLocation config = Some (path_normalize (path_join [cwd e, v]))) \<and>
     (apiLocation ov = Some v \<and> v \<noteq> [] \<longrightarrow>
        apiLocation config = Some (path_normalize (path_join [cwd e, v]))) \<and>
     (appArtifactLocation ov = Some v \<and> v \<noteq> [] \<longrightarrow>
        appArtifactLocation config = Some (path_normalize (path_join [cwd e, v])))"
proof -
  obtain w where c: "configFrom e (Some ov) w = Inr config"
    using readConfigFile_returns_snd [OF assms(2) assms(1)] by (metis option.inject)
  obtain locations where
    l: "appLocation config = Some (fst (applyOverride (cwd e) (Some ov) locations))"
       "apiLocation config = Some (fst (snd (applyOverride (cwd e) (Some ov) locations)))"
       "appArtifactLocation config = Some (snd (snd (applyOverride (cwd e) (Some ov) locations)))"
    using configFrom_Inr [OF c] by metis
  obtain x y z where xyz: "locations = (x, y, z)" by (cases locations) auto
  show ?thesis
    using l unfolding xyz applyOverride_fields
    by (simp add: overrideLocation_defined)
qed

theorem override_replaces_witness:
  "snd (readConfigFile (projectEnv clientServerDoc dotnet) (Some buildOverride))
     = Inr (Some \<lparr> appBuildCommand = JStr ''npm run build --if-present'',
                    apiBuildCommand = JStr ''npm run build --if-present'',
                    appLocation = Some ''/proj/web'',
                    apiLocation = Some ''/proj/fn'',
                    appArtifactLocation = Some ''/proj/out'' \<rparr>) \<and>
   path_normalize (path_join [''/proj'', ''web'']) = ''/proj/web'' \<and>
   path_normalize (path_join [''/proj'', ''fn'']) = ''/proj/fn'' \<and>
   path_normalize (path_join [''/proj'', ''out'']) = ''/proj/out''"
proof -
  have r: "snd (readConfigFile (projectEnv clientServerDoc dotnet) (Some buildOverride))
     = Inr (Some \<lparr> appBuildCommand = JStr ''npm run build --if-present'',
                    apiBuildCommand = JStr ''npm run build --if-present'',
                    appLocation = Some ''/proj/web'',
                    apiLocation = Some ''/proj/fn'',
                    appArtifactLocation = Some ''/proj/out'' \<rparr>)"
    by code_simp
  have o: "appLocation buildOverride = Some ''web'' \<and> ''web'' \<noteq> []"
    "apiLocation buildOverride = Some ''fn'' \<and> ''fn'' \<noteq> []"
    "appArtifactLocation buildOverride = Some ''out'' \<and> ''out'' \<noteq> []"
    by (simp_all add: buildOverride_def)
  note th = override_replaces [OF projectEnv_located r]
  have d: "cwd (projectEnv clientServerDoc dotnet) = ''/proj''"
    by (simp add: projectEnv_def)
  show ?thesis
    using r th [of "''web''", THEN conjunct1, rule_format, OF o(1)]
      th [of "''fn''", THEN conjunct2, THEN conjunct1, rule_format, OF o(2)]
      th [of "''out''", THEN conjunct2, THEN conjunct2, rule_format, OF o(3)]
    unfolding d by simp
qed

text \<open>
  Claim C4. For every valid descriptor, what \<^verbatim>\<open>readConfigFile\<close> returns or throws is what
  path resolution and the override merge make of these five values: each field of the
  \<^verbatim>\<open>with\<close> block where it is present, and where it is omitted
  \<^verbatim>\<open>npm run build --if-present\<close> for the two build commands, the path separator for the
  app location and the app artifact location, and \<^verbatim>\<open>api\<close> for the api location. The build
  commands are returned as they are.
\<close>

theorem defaults_substituted:
  assumes "findGithubActionFile e = Inr (Some f)" and "readFileSync e f = Inr content"
    and "YAML_parse e content = Some swaYaml" and "swaBuildConfigWith f swaYaml = Inr w"
  shows "snd (readConfigFile e overrideConfig) =
     (case resolveLocations e
             (if getProp w ''app_location'' = JUndefined then JStr ''/''
              else getProp w ''app_location'')
             (if getProp w ''api_location'' = JUndefined then JStr ''api''
              else getProp w ''api_location'')
             (if getProp w ''app_artifact_location'' = JUndefined then JStr ''/''
              else getProp w ''app_artifact_location'') of
        Inl err \<Rightarrow> Inl err
      | Inr locations \<Rightarrow>
          Inr (Some
            \<lparr> appBuildCommand =
                (if getProp w ''app_build_command'' = JUndefined
                 then JStr ''npm run build --if-present'' else getProp w ''app_build_command''),
              apiBuildCommand =
                (if getProp w ''api_build_command'' = JUndefined
                 then JStr ''npm run build --if-present'' else getProp w ''api_build_command''),
              appLocation = Some (fst (applyOverride (cwd e) overrideConfig locations)),
              apiLocation = Some (fst (snd (applyOverride (cwd e) overrideConfig locations))),
              appArtifactLocation =
                Some (snd (snd (applyOverride (cwd e) overrideConfig locations))) \<rparr>))"
  unfolding readConfigFile_valid_snd [OF assms] configFrom_resolved
    orDefault_def sep_def defaultBuildCommand_def
  by (rule refl)

theorem defaults_substituted_witness:
  "snd (readConfigFile (projectEnv (workflowDoc [checkoutStep, deployStep (JMap [])]) otherRuntime) None)
     = Inr (Some \<lparr> appBuildCommand = JStr ''npm run build --if-present'',
                    apiBuildCommand = JStr ''npm run build --if-present'',
                    appLocation = Some ''/proj/'',
                    apiLocation = Some ''/proj/api'',
                    appArtifactLocation = Some ''/proj/'' \<rparr>) \<and>
   snd (readConfigFile (projectEnv (workflowDoc [checkoutStep, deployStep fullWith]) otherRuntime) None)
     = Inr (Some \<lparr> appBuildCommand = JStr ''npm run build:app'',
                    apiBuildCommand = JStr ''npm run build:api'',
                    appLocation = Some ''/proj/app'',
                    apiLocation = Some ''/proj/functions'',
                    appArtifactLocation = Some ''/proj/app/dist'' \<rparr>)"
proof -
  have v0: "swaBuildConfigWith workflowPath (workflowDoc [checkoutStep, deployStep (JMap [])]) = Inr (JMap [])"
    by (rule swaBuildConfigWith_workflowDoc) simp
  have v1: "swaBuildConfigWith workflowPath (workflowDoc [checkoutStep, deployStep fullWith]) = Inr fullWith"
    by (rule swaBuildConfigWith_workflowDoc) (simp add: fullWith_def)
  have r0: "resolveLocations (projectEnv (workflowDoc [checkoutStep, deployStep (JMap [])]) otherRuntime)
              (JStr ''/'') (JStr ''api'') (JStr ''/'') = Inr (''/proj/'', ''/proj/api'', ''/proj/'')"
    by code_simp
  have g: "getProp fullWith ''app_build_command'' = JStr ''npm run build:app''"
    "getProp fullWith ''api_build_command'' = JStr ''npm run build:api''"
    "getProp fullWith ''app_location'' = JStr ''app''"
    "getProp fullWith ''app_artifact_location'' = JStr ''dist''"
    "getProp fullWith ''api_location'' = JStr ''functions''"
    by code_simp+
  have r1: "resolveLocations (projectEnv (workflowDoc [checkoutStep, deployStep fullWith]) otherRuntime)
              (JStr ''app'') (JStr ''functions'') (JStr ''dist'')
              = Inr (''/proj/app'', ''/proj/functions'', ''/proj/app/dist'')"
    by code_simp
  show ?thesis
    using defaults_substituted [OF projectEnv_located projectEnv_read projectEnv_parsed v0, of otherRuntime None]
      defaults_substituted [OF projectEnv_located projectEnv_read projectEnv_parsed v1, of otherRuntime None]
      r0 r1 g
    by (simp add: applyOverride_def)
qed

text \<open>
  Claim C5. Where the detector classifies the resolved app location as .NET, the resolved
  \<^verbatim>\<open>appArtifactLocation\<close> is the app location joined with \<^verbatim>\<open>bin\<close>, \<^verbatim>\<open>Debug\<close>,
  \<^verbatim>\<open>netstandard2.1\<close>, \<^verbatim>\<open>publish\<close> and the normalized, still relative, possibly default
  artifact location; for any other classification it is the app location joined with the
  artifact location. It is the value returned unless the override record defines
  \<^verbatim>\<open>appArtifactLocation\<close>.
\<close>

theorem artifact_location_by_runtime:
  assumes "findGithubActionFile e = Inr (Some f)" and "readFileSync e f = Inr content"
    and "YAML_parse e content = Some swaYaml" and "swaBuildConfigWith f swaYaml = Inr w"
    and "(if getProp w ''app_location'' = JUndefined then JStr ''/''
          else getProp w ''app_location'') = JStr app"
    and "(if getProp w ''app_artifact_location'' = JUndefined then JStr ''/''
          else getProp w ''app_artifact_location'') = JStr artifact"
    and "snd (readConfigFile e overrideConfig) = Inr (Some config)"
    and "case overrideConfig of
           None \<Rightarrow> True
         | Some ov \<Rightarrow> appArtifactLocation ov = None \<or> appArtifactLocation ov = Some []"
  shows "appArtifactLocation config =
           Some (if detectRuntime e (path_normalize (path_join [cwd e, app])) = dotnet
                 then path_join [path_normalize (path_join [cwd e, app]),
                                 ''bin'', ''Debug'', ''netstandard2.1'', ''publish'',
                                 path_normalize artifact]
                 else path_join [path_normalize (path_join [cwd e, app]), path_normalize artifact])"
proof -
  have c: "configFrom e overrideConfig w = Inr config"
    using assms(1-4,7) by (rule readConfigFile_config)
  have a: "orDefault (getProp w ''app_location'') (JStr sep) = JStr app"
    using assms(5) by (simp add: orDefault_def sep_def)
  have b: "orDefault (getProp w ''app_artifact_location'') (JStr sep) = JStr artifact"
    using assms(6) by (simp add: orDefault_def sep_def)
  obtain locations where
    r: "resolveLocations e (JStr app) (orDefault (getProp w ''api_location'') (JStr ''api''))
          (JStr artifact) = Inr locations"
    and l: "appArtifactLocation config = Some (snd (snd (applyOverride (cwd e) overrideConfig locations)))"
    using configFrom_Inr [OF c] a b by metis
  obtain x y z where xyz: "locations = (x, y, z)" by (cases locations) auto
  obtain app' artifact' where
    "JStr app = JStr app'" "JStr artifact = JStr artifact'"
    "x = path_normalize (path_join [cwd e, app'])"
    "z = (if detectRuntime e x = dotnet
          then path_join (x # dotnetPublish @ [path_normalize artifact'])
          else path_join [x, path_normalize artifact'])"
    using resolveLocations_Inr [OF r [unfolded xyz]] by metis
  then have z: "z = (if detectRuntime e (path_normalize (path_join [cwd e, app])) = dotnet
          then path_join (path_normalize (path_join [cwd e, app]) # dotnetPublish @ [path_normalize artifact])
          else path_join [path_normalize (path_join [cwd e, app]), path_normalize artifact])"
    by simp
  have "snd (snd (applyOverride (cwd e) overrideConfig (x, y, z))) = z"
    using assms(8) overrideLocation_undefined
    by (simp add: applyOverride_fields split: option.splits)
  then show ?thesis
    using l xyz z by (simp add: dotnetPublish_def)
qed

theorem artifact_location_by_runtime_witness:
  "snd (readConfigFile (projectEnv (workflowDoc [checkoutStep, deployStep fullWith]) dotnet) None)
     = Inr (Some \<lparr> appBuildCommand = JStr ''npm run build:app'', apiBuildCommand = JStr ''npm run build:api'',
       appLocation = Some ''/proj/app'', apiLocation = Some ''/proj/functions'',
       appArtifactLocation = Some ''/proj/app/bin/Debug/netstandard2.1/publish/dist'' \<rparr>) \<and>
   path_join [''/proj/app'', ''bin'', ''Debug'', ''netstandard2.1'', ''publish'', ''dist'']
     = ''/proj/app/bin/Debug/netstandard2.1/publish/dist'' \<and>
   snd (readConfigFile (projectEnv (workflowDoc [checkoutStep, deployStep fullWith]) otherRuntime) None)
     = Inr (Some \<lparr> appBuildCommand = JStr ''npm run build:app'', apiBuildCommand = JStr ''npm run build:api'',
       appLocation = Some ''/proj/app'', apiLocation = Some ''/proj/functions'',
       appArtifactLocation = Some ''/proj/app/dist'' \<rparr>) \<and>
   path_join [''/proj/app'', ''dist''] = ''/proj/app/dist''"
proof -
  let ?doc = "workflowDoc [checkoutStep, deployStep fullWith]"
  have v: "swaBuildConfigWith workflowPath ?doc = Inr fullWith"
    by (rule swaBuildConfigWith_workflowDoc) (simp add: fullWith_def)
  have a: "(if getProp fullWith ''app_location'' = JUndefined then JStr ''/''
            else getProp fullWith ''app_location'') = JStr ''app''"
    by code_simp
  have b: "(if getProp fullWith ''app_artifact_location'' = JUndefined then JStr ''/''
            else getProp fullWith ''app_artifact_location'') = JStr ''dist''"
    by code_simp
  have r1: "snd (readConfigFile (projectEnv ?doc dotnet) None)
     = Inr (Some \<lparr> appBuildCommand = JStr ''npm run build:app'', apiBuildCommand = JStr ''npm run build:api'',
       appLocation = Some ''/proj/app'', apiLocation = Some ''/proj/functions'',
       appArtifactLocation = Some ''/proj/app/bin/Debug/netstandard2.1/publish/dist'' \<rparr>)"
    by code_simp
  have r2: "snd (readConfigFile (projectEnv ?doc otherRuntime) None)
     = Inr (Some \<lparr> appBuildCommand = JStr ''npm run build:app'', apiBuildCommand = JStr ''npm run build:api'',
       appLocation = Some ''/proj/app'', apiLocation = Some ''/proj/functions'',
       appArtifactLocation = Some ''/proj/app/dist'' \<rparr>)"
    by code_simp
  have o: "case None :: GithubActionSWAConfig option of None \<Rightarrow> True
           | Some ov \<Rightarrow> appArtifactLocation ov = None \<or> appArtifactLocation ov = Some []"
    by simp
  have n: "path_normalize (path_join [''/proj'', ''app'']) = ''/proj/app''"
       "path_normalize ''dist'' = ''dist''"
    by code_simp+
  show ?thesis
    using artifact_location_by_runtime [OF projectEnv_located projectEnv_read projectEnv_parsed v a b r1 o]
      artifact_location_by_runtime [OF projectEnv_located projectEnv_read projectEnv_parsed v a b r2 o]
      n r1 r2
    by (simp add: projectEnv_def)
qed

text \<open>
  Claim C8, as stated, fails where no file of the workflow folder matches: with an
  absolute working directory, the record returned is the override record, whose
  \<^verbatim>\<open>appLocation\<close> is the relative path \<^verbatim>\<open>client\<close> and whose \<^verbatim>\<open>apiLocation\<close> is absent.
\<close>

theorem paths_absolute_normalized_counterexample:
  "isAbsolute (cwd otherWorkflowsEnv) \<and>
   snd (readConfigFile otherWorkflowsEnv (Some clientOverride)) = Inr (Some clientOverride) \<and>
   appLocation clientOverride = Some ''client'' \<and> \<not> isAbsolute ''client'' \<and>
   apiLocation clientOverride = None"
  by code_simp

text \<open>
  Claim C8, amended. Given an absolute working directory, every configuration record that
  \<^verbatim>\<open>readConfigFile\<close> returns after choosing a workflow file (that is, other than the
  override record handed back on the degraded path) has \<^verbatim>\<open>appLocation\<close>, \<^verbatim>\<open>apiLocation\<close> and
  \<^verbatim>\<open>appArtifactLocation\<close> defined, absolute and left unchanged by \<^verbatim>\<open>path.normalize\<close>.
\<close>

theorem paths_absolute_normalized:
  assumes "isAbsolute (cwd e)" and "findGithubActionFile e = Inr (Some f)"
    and "snd (readConfigFile e overrideConfig) = Inr (Some config)"
  shows "absoluteNormalized (appLocation config) \<and> absoluteNormalized (apiLocation config) \<and>
         absoluteNormalized (appArtifactLocation config)"
proof -
  obtain w where c: "configFrom e overrideConfig w = Inr config"
    using readConfigFile_returns_snd [OF assms(3) assms(2)] by (metis option.inject)
  obtain a b d locations where
    r: "resolveLocations e a b d = Inr locations" and
    l: "appLocation config = Some (fst (applyOverride (cwd e) overrideConfig locations))"
       "apiLocation config = Some (fst (snd (applyOverride (cwd e) overrideConfig locations)))"
       "appArtifactLocation config = Some (snd (snd (applyOverride (cwd e) overrideConfig locations)))"
    using configFrom_Inr [OF c] by metis
  obtain x y z where xyz: "locations = (x, y, z)" by (cases locations) auto
  note an = resolveLocations_absoluteNormalized [OF assms(1) r [unfolded xyz]]
  note ov = overrideLocation_absoluteNormalized [OF assms(1)]
  have "absoluteNormalized (Some (fst (applyOverride (cwd e) overrideConfig (x, y, z))))"
    unfolding applyOverride_fields using an(1) ov [OF an(1)] by (simp split: option.splits)
  moreover have "absoluteNormalized (Some (fst (snd (applyOverride (cwd e) overrideConfig (x, y, z)))))"
    unfolding applyOverride_fields using an(2) ov [OF an(2)] by (simp split: option.splits)
  moreover have "absoluteNormalized (Some (snd (snd (applyOverride (cwd e) overrideConfig (x, y, z)))))"
    unfolding applyOverride_fields using an(3) ov [OF an(3)] by (simp split: option.splits)
  ultimately show ?thesis using l xyz by simp
qed

theorem paths_absolute_normalized_witness:
  "isAbsolute ''/proj'' \<and>
   snd (readConfigFile (projectEnv clientServerDoc dotnet) (Some clientOverride))
     = Inr (Some \<lparr> appBuildCommand = JStr ''npm run build --if-present'',
                    apiBuildCommand = JStr ''npm run build --if-present'',
                    appLocation = Some ''/proj/client'',
                    apiLocation = Some ''/proj/server'',
                    appArtifactLocation = Some ''/proj/client/bin/Debug/netstandard2.1/publish/'' \<rparr>) \<and>
   absoluteNormalized (Some ''/proj/client'') \<and> absoluteNormalized (Some ''/proj/server'') \<and>
   absoluteNormalized (Some ''/proj/client/bin/Debug/netstandard2.1/publish/'')"
proof -
  have a: "isAbsolute (cwd (projectEnv clientServerDoc dotnet))"
    by (simp add: projectEnv_def isAbsolute_def)
  have r: "snd (readConfigFile (projectEnv clientServerDoc dotnet) (Some clientOverride))
     = Inr (Some \<lparr> appBuildCommand = JStr ''npm run build --if-present'',
                    apiBuildCommand = JStr ''npm run build --if-present'',
                    appLocation = Some ''/proj/client'',
                    apiLocation = Some ''/proj/server'',
                    appArtifactLocation = Some ''/proj/client/bin/Debug/netstandard2.1/publish/'' \<rparr>)"
    by code_simp
  show ?thesis
    using a r paths_absolute_normalized [OF a projectEnv_located r]
    by (simp add: projectEnv_def)
qed

text \<open>
  Claim C10. For every parsed, valid descriptor and every override record, also one
  that sets \<^verbatim>\<open>appBuildCommand\<close> or \<^verbatim>\<open>apiBuildCommand\<close>, the build commands of the returned
  configuration are those of the \<^verbatim>\<open>with\<close> block, or the default where the block omits
  them: the override record has no part in them.
\<close>

theorem build_commands_not_overridden:
  assumes "findGithubActionFile e = Inr (Some f)" and "readFileSync e f = Inr content"
    and "YAML_parse e content = Some swaYaml" and "swaBuildConfigWith f swaYaml = Inr w"
    and "snd (readConfigFile e overrideConfig) = Inr (Some config)"
  shows "appBuildCommand config =
           (if getProp w ''app_build_command'' = JUndefined
            then JStr ''npm run build --if-present'' else getProp w ''app_build_command'') \<and>
         apiBuildCommand config =
           (if getProp w ''api_build_command'' = JUndefined
            then JStr ''npm run build --if-present'' else getProp w ''api_build_command'')"
proof -
  have "configFrom e overrideConfig w = Inr config"
    using assms(5) unfolding readConfigFile_valid_snd [OF assms(1-4)]
    by (simp split: sum.splits)
  then show ?thesis
    by (rule configFrom_Inr) (simp add: orDefault_def defaultBuildCommand_def)
qed

theorem build_commands_not_overridden_witness:
  "snd (readConfigFile (projectEnv clientServerDoc otherRuntime) (Some buildOverride))
     = Inr (Some \<lparr> appBuildCommand = JStr ''npm run build --if-present'',
                    apiBuildCommand = JStr ''npm run build --if-present'',
                    appLocation = Some ''/proj/web'',
                    apiLocation = Some ''/proj/fn'',
                    appArtifactLocation = Some ''/proj/out'' \<rparr>) \<and>
   appBuildCommand buildOverride = JStr ''make app'' \<and>
   apiBuildCommand buildOverride = JStr ''make api''"
proof -
  have t: "truthy clientServerWith" by code_simp
  have v: "swaBuildConfigWith workflowPath clientServerDoc = Inr clientServerWith"
    unfolding clientServerDoc_def using t by (rule swaBuildConfigWith_workflowDoc)
  have r: "snd (readConfigFile (projectEnv clientServerDoc otherRuntime) (Some buildOverride))
     = Inr (Some \<lparr> appBuildCommand = JStr ''npm run build --if-present'',
                    apiBuildCommand = JStr ''npm run build --if-present'',
                    appLocation = Some ''/proj/web'',
                    apiLocation = Some ''/proj/fn'',
                    appArtifactLocation = Some ''/proj/out'' \<rparr>)"
    by code_simp
  show ?thesis
    using r build_commands_not_overridden [OF projectEnv_located projectEnv_read projectEnv_parsed v r]
    by (simp add: buildOverride_def)
qed

end
